theory Spec2Isabelle
  imports Complex_Main
begin

section \<open>Values, parsed JSON bodies and tables\<close>

text \<open>
  The module \<^verbatim>\<open>eodhd_utils.py\<close> turns JSON responses of the EODHD API into pandas
  tables. A table cell holds a JSON scalar, a missing value (Python \<^verbatim>\<open>None\<close> and
  pandas \<^verbatim>\<open>NaN\<close> are both the missing value \<open>NA\<close>; where the two behave
  differently, in the dtype of a column, the rows of the response tell them apart) or a
  timestamp taken from \<^verbatim>\<open>datetime.datetime.now()\<close>.
\<close>

datatype cell = NA | Flag bool | Num rat | Str string | Stamp nat

text \<open>
  A parsed JSON object is a Python dict: here an association list in insertion order,
  read with \<open>map_of\<close>. The parsed body of a response is an array of flat objects
  (the shape the provider documents), a single flat object, or a bare scalar
  (\<open>Scalar NA\<close> is JSON \<^verbatim>\<open>null\<close>).
\<close>

type_synonym pydict = "(string \<times> cell) list"

datatype body = Records "pydict list" | Object pydict | Scalar cell

datatype exn = RequestException | ValueError | KeyError | TypeError

datatype level = DEBUG | WARNING | ERROR

type_synonym log = "(level \<times> string) list"

text \<open>
  A table is stored by columns: the length of its index and, in column order, each label
  with the cells of that column.
\<close>

record frame =
  nrows :: nat
  cols :: "(string \<times> cell list) list"

definition columns :: "frame \<Rightarrow> string list" where
  "columns df = map fst (cols df)"

text \<open>\<^verbatim>\<open>df.empty\<close>: true when either axis has length 0.\<close>

definition df_empty :: "frame \<Rightarrow> bool" where
  "df_empty df \<longleftrightarrow> nrows df = 0 \<or> cols df = []"

text \<open>The cell of column \<open>k\<close> in row \<open>i\<close>; \<open>None\<close> when there is no such cell.\<close>

definition cell_at :: "frame \<Rightarrow> string \<Rightarrow> nat \<Rightarrow> cell option" where
  "cell_at df k i =
     (case map_of (cols df) k of
        None \<Rightarrow> None
      | Some xs \<Rightarrow> if i < length xs then Some (xs ! i) else None)"

text \<open>Sequencing of steps that may raise: the first exception ends the block.\<close>

definition seq :: "exn + 'a \<Rightarrow> ('a \<Rightarrow> exn + 'b) \<Rightarrow> exn + 'b" where
  "seq m f = (case m of Inl e \<Rightarrow> Inl e | Inr x \<Rightarrow> f x)"

subsection \<open>Python truthiness and type test\<close>

text \<open>\<^verbatim>\<open>not data\<close> for the optional result of the request helper.\<close>

fun falsy_cell :: "cell \<Rightarrow> bool" where
  "falsy_cell NA = True"
| "falsy_cell (Flag b) = (\<not> b)"
| "falsy_cell (Num n) = (n = 0)"
| "falsy_cell (Str s) = (s = [])"
| "falsy_cell (Stamp t) = False"

fun falsy :: "body \<Rightarrow> bool" where
  "falsy (Records rows) = (rows = [])"
| "falsy (Object d) = (d = [])"
| "falsy (Scalar c) = falsy_cell c"

definition py_not :: "body option \<Rightarrow> bool" where
  "py_not data = (case data of None \<Rightarrow> True | Some b \<Rightarrow> falsy b)"

text \<open>\<^verbatim>\<open>isinstance(data, list)\<close>\<close>

fun isinstance_list :: "body option \<Rightarrow> bool" where
  "isinstance_list None = False"
| "isinstance_list (Some (Records rows)) = True"
| "isinstance_list (Some (Object d)) = False"
| "isinstance_list (Some (Scalar c)) = False"

subsection \<open>The pandas operations the module uses\<close>

text \<open>Labels in order of first appearance.\<close>

primrec uniq :: "'a list \<Rightarrow> 'a list" where
  "uniq [] = []"
| "uniq (x # xs) = x # removeAll x (uniq xs)"

definition dict_get :: "pydict \<Rightarrow> string \<Rightarrow> cell" where
  "dict_get d k = (case map_of d k of None \<Rightarrow> NA | Some v \<Rightarrow> v)"

definition key_union :: "pydict list \<Rightarrow> string list" where
  "key_union rows = uniq (concat (map (map fst) rows))"

text \<open>
  \<^verbatim>\<open>pd.DataFrame(data)\<close>. A list of dicts gives one row per dict and one column per
  key, in order of first appearance, a key missing from a row giving a missing cell.
  \<^verbatim>\<open>None\<close> (also the parsed JSON \<^verbatim>\<open>null\<close>) and an empty dict give the empty
  table; a dict of scalars and a bare scalar raise \<^verbatim>\<open>ValueError\<close>.
\<close>

fun DataFrame :: "body option \<Rightarrow> exn + frame" where
  "DataFrame None = Inr \<lparr>nrows = 0, cols = []\<rparr>"
| "DataFrame (Some (Records rows)) =
     Inr \<lparr>nrows = length rows,
          cols = map (\<lambda>k. (k, map (\<lambda>r. dict_get r k) rows)) (key_union rows)\<rparr>"
| "DataFrame (Some (Object d)) =
     (if d = [] then Inr \<lparr>nrows = 0, cols = []\<rparr> else Inl ValueError)"
| "DataFrame (Some (Scalar c)) =
     (if c = NA then Inr \<lparr>nrows = 0, cols = []\<rparr> else Inl ValueError)"

text \<open>
  \<^verbatim>\<open>df[k] = xs\<close> for a column \<open>xs\<close> on the index of \<open>df\<close>: an existing column is
  overwritten where it stands, a new one is appended as the last column.
\<close>

definition setitem :: "frame \<Rightarrow> string \<Rightarrow> cell list \<Rightarrow> frame" where
  "setitem df k xs =
     (if k \<in> set (columns df)
      then df\<lparr>cols := map (\<lambda>(k', ys). if k' = k then (k', xs) else (k', ys)) (cols df)\<rparr>
      else df\<lparr>cols := cols df @ [(k, xs)]\<rparr>)"

text \<open>\<^verbatim>\<open>df[k] = v\<close> for a scalar \<open>v\<close>: the value in every row.\<close>

definition setitem_scalar :: "frame \<Rightarrow> string \<Rightarrow> cell \<Rightarrow> frame" where
  "setitem_scalar df k v = setitem df k (replicate (nrows df) v)"

text \<open>\<^verbatim>\<open>df[k]\<close>: \<^verbatim>\<open>KeyError\<close> when there is no such column.\<close>

definition getitem :: "frame \<Rightarrow> string \<Rightarrow> exn + cell list" where
  "getitem df k = (case map_of (cols df) k of None \<Rightarrow> Inl KeyError | Some xs \<Rightarrow> Inr xs)"

text \<open>
  The dtype that \<^verbatim>\<open>pd.DataFrame(data)\<close> infers for the column of key \<open>k\<close>. A row
  without the key gets the float \<^verbatim>\<open>NaN\<close>, a row with \<^verbatim>\<open>null\<close> has
  \<^verbatim>\<open>None\<close>. The column is numeric (\<^verbatim>\<open>int64\<close> or \<^verbatim>\<open>float64\<close>) when every
  row has a number, \<^verbatim>\<open>null\<close> or no value for \<open>k\<close> and at least one row has a
  number or lacks the key: so a column in which no row has a value is a
  \<^verbatim>\<open>float64\<close> column of \<^verbatim>\<open>NaN\<close> as soon as one row lacks the key, and an
  \<^verbatim>\<open>object\<close> column of \<^verbatim>\<open>None\<close> when every row has the key.
\<close>

fun number_or_missing :: "cell option \<Rightarrow> bool" where
  "number_or_missing None = True"
| "number_or_missing (Some NA) = True"
| "number_or_missing (Some (Num n)) = True"
| "number_or_missing (Some (Flag b)) = False"
| "number_or_missing (Some (Str t)) = False"
| "number_or_missing (Some (Stamp t)) = False"

fun number_or_nan :: "cell option \<Rightarrow> bool" where
  "number_or_nan None = True"
| "number_or_nan (Some (Num n)) = True"
| "number_or_nan (Some NA) = False"
| "number_or_nan (Some (Flag b)) = False"
| "number_or_nan (Some (Str t)) = False"
| "number_or_nan (Some (Stamp t)) = False"

fun numeric_column :: "body option \<Rightarrow> string \<Rightarrow> bool" where
  "numeric_column (Some (Records rows)) k =
     (list_all (\<lambda>r. number_or_missing (map_of r k)) rows \<and>
      list_ex (\<lambda>r. number_or_nan (map_of r k)) rows)"
| "numeric_column (Some (Object d)) k = False"
| "numeric_column (Some (Scalar c)) k = False"
| "numeric_column None k = False"

text \<open>
  \<^verbatim>\<open>series + s\<close> for a string \<open>s\<close>. On a numeric column it raises
  \<^verbatim>\<open>TypeError\<close>. On any other column the string is added cell by cell: a string
  cell is extended, a missing cell stays missing, any other cell raises
  \<^verbatim>\<open>TypeError\<close>.
\<close>

fun add_str :: "cell \<Rightarrow> string \<Rightarrow> exn + cell" where
  "add_str (Str t) s = Inr (Str (t @ s))"
| "add_str NA s = Inr NA"
| "add_str (Flag b) s = Inl TypeError"
| "add_str (Num n) s = Inl TypeError"
| "add_str (Stamp t) s = Inl TypeError"

fun add_cells :: "cell list \<Rightarrow> string \<Rightarrow> exn + cell list" where
  "add_cells [] s = Inr []"
| "add_cells (c # cs) s =
     (case add_str c s of
        Inl e \<Rightarrow> Inl e
      | Inr c' \<Rightarrow> (case add_cells cs s of Inl e \<Rightarrow> Inl e | Inr cs' \<Rightarrow> Inr (c' # cs')))"

definition series_add :: "bool \<Rightarrow> cell list \<Rightarrow> string \<Rightarrow> exn + cell list" where
  "series_add numeric cs s = (if numeric then Inl TypeError else add_cells cs s)"

text \<open>\<^verbatim>\<open>df[[k1, ..., kn]]\<close>: the named columns in the order given.\<close>

fun select :: "(string \<times> cell list) list \<Rightarrow> string list \<Rightarrow> exn + (string \<times> cell list) list"
  where
  "select cs [] = Inr []"
| "select cs (k # ks) =
     (case map_of cs k of
        None \<Rightarrow> Inl KeyError
      | Some xs \<Rightarrow> (case select cs ks of Inl e \<Rightarrow> Inl e | Inr r \<Rightarrow> Inr ((k, xs) # r)))"

definition getitem_list :: "frame \<Rightarrow> string list \<Rightarrow> exn + frame" where
  "getitem_list df ks =
     (case select (cols df) ks of Inl e \<Rightarrow> Inl e | Inr r \<Rightarrow> Inr (df\<lparr>cols := r\<rparr>))"

text \<open>\<^verbatim>\<open>df.drop(columns=ks)\<close>: \<^verbatim>\<open>KeyError\<close> when a label is not a column.\<close>

definition drop_columns :: "frame \<Rightarrow> string list \<Rightarrow> exn + frame" where
  "drop_columns df ks =
     (if set ks \<subseteq> set (columns df)
      then Inr (df\<lparr>cols := filter (\<lambda>(k, xs). k \<notin> set ks) (cols df)\<rparr>)
      else Inl KeyError)"

text \<open>\<^verbatim>\<open>df.columns = ks\<close>: \<^verbatim>\<open>ValueError\<close> on a length mismatch.\<close>

definition set_columns :: "frame \<Rightarrow> string list \<Rightarrow> exn + frame" where
  "set_columns df ks =
     (if length ks = length (cols df)
      then Inr (df\<lparr>cols := zip ks (map snd (cols df))\<rparr>)
      else Inl ValueError)"

text \<open>
  \<^verbatim>\<open>pd.concat([a, b], ignore_index=True)\<close>: the rows of \<open>a\<close> followed by the rows of
  \<open>b\<close>, over the union of the columns in order of first appearance, a column missing
  from one table filled with missing cells.
\<close>

definition column_or_na :: "frame \<Rightarrow> string \<Rightarrow> cell list" where
  "column_or_na df k =
     (case map_of (cols df) k of None \<Rightarrow> replicate (nrows df) NA | Some xs \<Rightarrow> xs)"

definition pd_concat :: "frame \<Rightarrow> frame \<Rightarrow> frame" where
  "pd_concat a b =
     \<lparr>nrows = nrows a + nrows b,
      cols = map (\<lambda>k. (k, column_or_na a k @ column_or_na b k))
                 (uniq (columns a @ columns b))\<rparr>"

section \<open>Constants of the module\<close>

definition PRICE_COLUMNS_SORTED :: "string list" where
  "PRICE_COLUMNS_SORTED =
     [''Ticker_ID'', ''Date'', ''Open'', ''High'', ''Low'',
      ''Close'', ''Adjusted_Close'', ''Volume'']"

definition PRICE_COLUMNS :: "string list" where
  "PRICE_COLUMNS =
     [''Date'', ''Open'', ''High'', ''Low'',
      ''Close'', ''Adjusted_Close'', ''Volume'', ''Ticker_ID'']"

definition US_EXCHANGES :: "(string \<times> (string \<times> string) list) list" where
  "US_EXCHANGES =
     [(''NYSE'',
        [(''Name'', ''New York Stock Exchange''),
         (''OperatingMIC'', ''XNYS''),
         (''Country'', ''US''),
         (''Currency'', ''USD''),
         (''CountryISO2'', ''US''),
         (''CountryISO3'', ''USA'')]),
      (''NASDAQ'',
        [(''Name'', ''NASDAQ''),
         (''OperatingMIC'', ''XNAS''),
         (''Country'', ''US''),
         (''Currency'', ''USD''),
         (''CountryISO2'', ''US''),
         (''CountryISO3'', ''USA'')])]"

definition BASE_URL :: string where
  "BASE_URL = ''https://eodhd.com/api''"

definition EXCHANGES :: string where
  "EXCHANGES = BASE_URL @ ''/exchanges-list''"

definition TICKERS :: string where
  "TICKERS = BASE_URL @ ''/exchange-symbol-list''"

definition HISTORICAL :: string where
  "HISTORICAL = BASE_URL @ ''/eod''"

definition DAILY :: string where
  "DAILY = BASE_URL @ ''/eod-bulk-last-day''"

text \<open>The clock: \<open>now i\<close> is what the \<open>i\<close>-th \<^verbatim>\<open>datetime.datetime.now()\<close> of a call returns.\<close>

type_synonym clock = "nat \<Rightarrow> nat"

section \<open>The request helper\<close>

text \<open>
  What \<^verbatim>\<open>requests.get(url)\<close> meets: no response at all (connection error, timeout),
  or a response with a status code and a body, \<open>None\<close> when the body is not JSON.
  The network is a function from the URL to that outcome.
\<close>

datatype outcome = Unreachable | Got nat "body option"

type_synonym net = "string \<Rightarrow> outcome"

definition requests_get :: "net \<Rightarrow> string \<Rightarrow> exn + (nat \<times> body option)" where
  "requests_get net url =
     (case net url of Unreachable \<Rightarrow> Inl RequestException | Got st p \<Rightarrow> Inr (st, p))"

text \<open>\<^verbatim>\<open>response.raise_for_status()\<close>: \<^verbatim>\<open>HTTPError\<close> for a 4xx or 5xx status.\<close>

definition raise_for_status :: "nat \<times> body option \<Rightarrow> exn + unit" where
  "raise_for_status r = (if 400 \<le> fst r \<and> fst r < 600 then Inl RequestException else Inr ())"

text \<open>
  \<^verbatim>\<open>response.json()\<close>: the \<^verbatim>\<open>JSONDecodeError\<close> of \<^verbatim>\<open>requests\<close> is a
  \<^verbatim>\<open>RequestException\<close>.
\<close>

definition response_json :: "nat \<times> body option \<Rightarrow> exn + body" where
  "response_json r = (case snd r of None \<Rightarrow> Inl RequestException | Some b \<Rightarrow> Inr b)"

text \<open>
  Every function of the module returns its value, or the exception that leaves it, together
  with the messages it logged. A message is recorded with its level and its text up to
  the text of the exception, which the exceptions here do not carry.
\<close>

definition make_api_request :: "net \<Rightarrow> string \<Rightarrow> (exn + body option) \<times> log" where
  "make_api_request net url =
     (case seq (requests_get net url)
             (\<lambda>response. seq (raise_for_status response) (\<lambda>_. response_json response)) of
        Inr b \<Rightarrow> (Inr (Some b), [])
      | Inl e \<Rightarrow>
          if e = RequestException then (Inr None, [(ERROR, ''API request failed'')])
          else (Inl e, []))"

section \<open>Ticker retrieval\<close>

definition TICKER_COLUMNS :: "string list" where
  "TICKER_COLUMNS =
     [''Ticker_ID'', ''Code'', ''Name'', ''Country'', ''Exchange'', ''EoDHD_Exchange'',
      ''Currency'', ''Type'', ''Isin'', ''Source'', ''Date_Updated'']"

text \<open>\<^verbatim>\<open>lambda x: 'US' if x in list(US_EXCHANGES.keys()) else x\<close>\<close>

definition us_collapse :: "cell \<Rightarrow> cell" where
  "us_collapse x = (if x \<in> set (map Str (map fst US_EXCHANGES)) then Str ''US'' else x)"

text \<open>
  The body of the \<^verbatim>\<open>try\<close> block of \<^verbatim>\<open>retrieve_tickers\<close>. The column
  \<open>Code\<close> is read as the constructor built it (only \<open>Source\<close> and
  \<open>Date_Updated\<close> have been set since), so its dtype is the one inferred from
  \<open>data\<close>.
\<close>

definition tickers_reshape :: "clock \<Rightarrow> string \<Rightarrow> body option \<Rightarrow> exn + frame" where
  "tickers_reshape now exchange data =
     seq (DataFrame data) (\<lambda>df.
       let df = setitem_scalar df ''Source'' (Str (''EoDHD.com - Exchange '' @ exchange));
           df = setitem_scalar df ''Date_Updated'' (Stamp (now 0))
       in seq (getitem df ''Code'') (\<lambda>code.
          seq (series_add (numeric_column data ''Code'') code (''_'' @ exchange)) (\<lambda>ticker_id.
            let df = setitem df ''Ticker_ID'' ticker_id
            in seq (getitem df ''Exchange'') (\<lambda>ex.
                 let df = setitem df ''EoDHD_Exchange'' (map us_collapse ex)
                 in getitem_list df TICKER_COLUMNS))))"

definition retrieve_tickers ::
  "net \<Rightarrow> clock \<Rightarrow> string \<Rightarrow> string \<Rightarrow> (exn + frame option) \<times> log" where
  "retrieve_tickers net now api_key exchange =
     (let url = TICKERS @ ''/'' @ exchange @ ''?api_token='' @ api_key @ ''&fmt=json''
      in case make_api_request net url of
           (Inl e, lg) \<Rightarrow> (Inl e, lg)
         | (Inr data, lg) \<Rightarrow>
             if py_not data \<or> \<not> isinstance_list data then (Inr None, lg)
             else (case tickers_reshape now exchange data of
                     Inr df \<Rightarrow> (Inr (Some df), lg)
                   | Inl e \<Rightarrow>
                       (Inr None,
                        lg @ [(ERROR, ''Failed to process ticker data for '' @ exchange)])))"

section \<open>Exchange retrieval\<close>

text \<open>\<^verbatim>\<open>d[k] = v\<close> on a dict: an existing key keeps its place, a new one goes last.\<close>

definition dict_set :: "pydict \<Rightarrow> string \<Rightarrow> cell \<Rightarrow> pydict" where
  "dict_set d k v =
     (if k \<in> set (map fst d)
      then map (\<lambda>(k', v'). if k' = k then (k', v) else (k', v')) d
      else d @ [(k, v)])"

text \<open>
  The rows of the list comprehension over \<^verbatim>\<open>US_EXCHANGES.items()\<close>; the provider
  table has taken the first reading of the clock, so the \<open>i\<close>-th manual row takes
  reading \<open>i + 1\<close>.
\<close>

definition us_exchange_row :: "clock \<Rightarrow> nat \<times> string \<times> (string \<times> string) list \<Rightarrow> pydict" where
  "us_exchange_row now = (\<lambda>(i, code, exchange_data).
     dict_set
       (dict_set
          (dict_set (map (\<lambda>(k, v). (k, Str v)) exchange_data) ''Code'' (Str code))
          ''Source'' (Str ''Manual_Input''))
       ''Date_Updated'' (Stamp (now (Suc i))))"

definition us_exchange_rows :: "clock \<Rightarrow> pydict list" where
  "us_exchange_rows now = map (us_exchange_row now) (enumerate 0 US_EXCHANGES)"

text \<open>The body of the \<^verbatim>\<open>try\<close> block of \<^verbatim>\<open>retrieve_exchanges\<close>.\<close>

definition exchanges_reshape :: "clock \<Rightarrow> body option \<Rightarrow> exn + frame" where
  "exchanges_reshape now data =
     seq (DataFrame data) (\<lambda>df.
       let df = setitem_scalar df ''Source'' (Str ''EoDHD.com'');
           df = setitem_scalar df ''Date_Updated'' (Stamp (now 0))
       in seq (DataFrame (Some (Records (us_exchange_rows now)))) (\<lambda>us_exchanges.
            Inr (pd_concat df us_exchanges)))"

definition retrieve_exchanges :: "net \<Rightarrow> clock \<Rightarrow> string \<Rightarrow> (exn + frame option) \<times> log" where
  "retrieve_exchanges net now api_key =
     (let url = EXCHANGES @ ''/?api_token='' @ api_key @ ''&fmt=json''
      in case make_api_request net url of
           (Inl e, lg) \<Rightarrow> (Inl e, lg)
         | (Inr data, lg) \<Rightarrow>
             if py_not data then (Inr None, lg)
             else (case exchanges_reshape now data of
                     Inr df \<Rightarrow> (Inr (Some df), lg)
                   | Inl e \<Rightarrow> (Inr None, lg @ [(ERROR, ''Failed to process exchange data'')])))"

section \<open>Historical price retrieval\<close>

text \<open>\<^verbatim>\<open>s.replace('.', '_')\<close>\<close>

definition replace_dots :: "string \<Rightarrow> string" where
  "replace_dots s = map (\<lambda>c. if c = CHR ''.'' then CHR ''_'' else c) s"

text \<open>
  The body of the \<^verbatim>\<open>try\<close> block of \<^verbatim>\<open>retrieve_historical_price\<close>, which makes
  its own request (it does not go through the request helper and does not look at the
  status of the response). It ends with the returned value and the messages logged.
\<close>

definition historical_try ::
  "net \<Rightarrow> string \<Rightarrow> string \<Rightarrow> string \<Rightarrow> string \<Rightarrow> exn + (frame option \<times> log)" where
  "historical_try net exchange ticker eod_ticker url =
     seq (requests_get net url) (\<lambda>response.
     seq (response_json response) (\<lambda>price_data.
     seq (DataFrame (Some price_data)) (\<lambda>price_data.
       if df_empty price_data
       then Inr (None,
                 [(DEBUG, ''No data returned for Ticker: '' @ ticker
                          @ '' on Exchange: '' @ exchange)])
       else
         let id = replace_dots eod_ticker;
             price_data = setitem_scalar price_data ''Ticker_ID'' (Str id)
         in seq (set_columns price_data (take (length (columns price_data)) PRICE_COLUMNS))
              (\<lambda>price_data.
                 seq (getitem_list price_data PRICE_COLUMNS_SORTED) (\<lambda>price_data.
                   Inr (Some price_data, []))))))"

definition retrieve_historical_price ::
  "net \<Rightarrow> string \<Rightarrow> string \<Rightarrow> string \<Rightarrow> string \<Rightarrow> (exn + frame option) \<times> log" where
  "retrieve_historical_price net exchange ticker date_to eodhd_api =
     (let eod_ticker = ticker @ ''.'' @ exchange;
          url = ''https://eodhd.com/api/eod/'' @ eod_ticker @ ''?api_token='' @ eodhd_api
                @ ''&from='' @ ''1900-01-01'' @ ''&to='' @ date_to @ ''&fmt=json''
      in case historical_try net exchange ticker eod_ticker url of
           Inr (r, lg) \<Rightarrow> (Inr r, lg)
         | Inl e \<Rightarrow>
             (Inr None, [(ERROR, ''Updating historical price data -Ticker: '' @ ticker)]))"

section \<open>Daily price retrieval\<close>

text \<open>
  The body of the \<^verbatim>\<open>try\<close> block of \<^verbatim>\<open>retrieve_daily_price\<close>. The column
  \<open>code\<close> is read as the constructor built it, so its dtype is the one inferred
  from \<open>data\<close>.
\<close>

definition daily_reshape :: "string \<Rightarrow> body option \<Rightarrow> exn + frame" where
  "daily_reshape exchange data =
     seq (DataFrame data) (\<lambda>df.
     seq (getitem df ''code'') (\<lambda>code.
     seq (series_add (numeric_column data ''code'') code (''_'' @ exchange)) (\<lambda>ticker_id.
       let df = setitem df ''Ticker_ID'' ticker_id
       in seq (drop_columns df [''code'', ''exchange_short_name'']) (\<lambda>df.
          seq (set_columns df PRICE_COLUMNS) (\<lambda>df.
          seq (getitem_list df PRICE_COLUMNS_SORTED) (\<lambda>df.
            getitem_list df PRICE_COLUMNS))))))"

definition retrieve_daily_price :: "net \<Rightarrow> string \<Rightarrow> string \<Rightarrow> (exn + frame option) \<times> log" where
  "retrieve_daily_price net exchange api_key =
     (let url = DAILY @ ''/'' @ exchange @ ''?api_token='' @ api_key @ ''&fmt=json''
      in case make_api_request net url of
           (Inl e, lg) \<Rightarrow> (Inl e, lg)
         | (Inr data, lg) \<Rightarrow>
             if py_not data
             then (Inr None,
                   lg @ [(WARNING, ''No daily price data retrieved for '' @ exchange)])
             else (case daily_reshape exchange data of
                     Inr df \<Rightarrow> (Inr (Some df), lg)
                   | Inl e \<Rightarrow>
                       (Inr None,
                        lg @ [(ERROR, ''Failed to process daily prices for '' @ exchange)])))"

section \<open>Concrete responses\<close>

text \<open>A provider that answers every request with status 200 and an empty JSON array.\<close>

definition empty_net :: net where
  "empty_net url = Got 200 (Some (Records []))"

definition clock0 :: clock where
  "clock0 i = 0"

text \<open>One row of an end-of-day history as the provider sends it.\<close>

definition price_row :: pydict where
  "price_row =
     [(''date'', Str ''2024-01-02''), (''open'', Num 187), (''high'', Num 188),
      (''low'', Num 183), (''close'', Num 185), (''adjusted_close'', Num 185),
      (''volume'', Num 82488700)]"

text \<open>A provider that answers with status 500 and, as body, a one-row history.\<close>

definition server_error_net :: net where
  "server_error_net url = Got 500 (Some (Records [price_row]))"

text \<open>A provider whose history rows carry two fields more than the seven expected.\<close>

definition wide_row :: pydict where
  "wide_row = price_row @ [(''dividend'', Num 0), (''split'', Num 1)]"

definition wide_net :: net where
  "wide_net url = Got 200 (Some (Records [wide_row]))"

definition wide_frame :: frame where
  "wide_frame =
     \<lparr>nrows = 1,
      cols = [(''date'', [Str ''2024-01-02'']), (''open'', [Num 187]), (''high'', [Num 188]),
              (''low'', [Num 183]), (''close'', [Num 185]), (''adjusted_close'', [Num 185]),
              (''volume'', [Num 82488700]), (''dividend'', [Num 0]), (''split'', [Num 1])]\<rparr>"

section \<open>Result shapes\<close>

text \<open>
  A request has failed when there is no response, when the status is 4xx or 5xx, or when
  the body is not JSON.
\<close>

fun failed :: "outcome \<Rightarrow> bool" where
  "failed Unreachable = True"
| "failed (Got st p) = (400 \<le> st \<and> st < 600 \<or> p = None)"

text \<open>
  What a caller may see from a retrieval function: the absent marker or a populated
  table, and no exception.
\<close>

definition table_or_absent :: "(exn + frame option) \<times> log \<Rightarrow> bool" where
  "table_or_absent res =
     (case fst res of
        Inl e \<Rightarrow> False
      | Inr None \<Rightarrow> True
      | Inr (Some df) \<Rightarrow> \<not> df_empty df)"

section \<open>Further concrete responses\<close>

text \<open>An exchange list with one entry.\<close>

definition lse_exchange :: pydict where
  "lse_exchange =
     [(''Name'', Str ''London Exchange''), (''Code'', Str ''LSE''),
      (''OperatingMIC'', Str ''XLON''), (''Country'', Str ''UK''),
      (''Currency'', Str ''GBP''), (''CountryISO2'', Str ''GB''),
      (''CountryISO3'', Str ''GBR'')]"

definition exchanges_net :: net where
  "exchanges_net url = Got 200 (Some (Records [lse_exchange]))"

text \<open>
  A ticker list of two rows: the row of the specification's scenario, and a row whose
  \<open>Code\<close> is \<^verbatim>\<open>null\<close> and whose \<open>Exchange\<close> is a US exchange.
\<close>

definition vod_row :: pydict where
  "vod_row =
     [(''Code'', Str ''VOD''), (''Name'', Str ''Vodafone''), (''Country'', Str ''UK''),
      (''Exchange'', Str ''LSE''), (''Currency'', Str ''GBX''),
      (''Type'', Str ''Common Stock''), (''Isin'', Str ''GB00BH4HKS39'')]"

definition nyse_row :: pydict where
  "nyse_row =
     [(''Code'', NA), (''Name'', Str ''Unnamed''), (''Country'', Str ''USA''),
      (''Exchange'', Str ''NYSE''), (''Currency'', Str ''USD''),
      (''Type'', Str ''Common Stock''), (''Isin'', NA)]"

definition tickers_net :: net where
  "tickers_net url = Got 200 (Some (Records [vod_row, nyse_row]))"

text \<open>A provider that answers with status 200 and a one-row history.\<close>

definition price_net :: net where
  "price_net url = Got 200 (Some (Records [price_row]))"

text \<open>
  A history row of eight fields whose first field is itself named \<open>Ticker_ID\<close>.
\<close>

definition shadow_row :: pydict where
  "shadow_row = (''Ticker_ID'', Str ''from-provider'') # price_row"

definition shadow_net :: net where
  "shadow_net url = Got 200 (Some (Records [shadow_row]))"

text \<open>One row of the bulk last-day response as the provider sends it.\<close>

definition daily_row :: pydict where
  "daily_row = [(''code'', Str ''AAPL''), (''exchange_short_name'', Str ''US'')] @ price_row"

definition daily_net :: net where
  "daily_net url = Got 200 (Some (Records [daily_row]))"

text \<open>The same row with a leading field named \<open>Ticker_ID\<close>.\<close>

definition shadow_daily_row :: pydict where
  "shadow_daily_row = (''Ticker_ID'', Str ''from-provider'') # daily_row"

definition shadow_daily_net :: net where
  "shadow_daily_net url = Got 200 (Some (Records [shadow_daily_row]))"

text \<open>A bulk row of nine fields whose \<open>code\<close> is a JSON number.\<close>

definition numeric_code_row :: pydict where
  "numeric_code_row = [(''code'', Num 700), (''exchange_short_name'', Str ''HK'')] @ price_row"

definition numeric_code_net :: net where
  "numeric_code_net url = Got 200 (Some (Records [numeric_code_row]))"

text \<open>
  A bulk response in which no row has a \<open>code\<close>: the first row has \<^verbatim>\<open>null\<close>, the
  second lacks the key.
\<close>

definition null_code_row :: pydict where
  "null_code_row = [(''code'', NA), (''exchange_short_name'', Str ''US'')] @ price_row"

definition keyless_row :: pydict where
  "keyless_row = (''exchange_short_name'', Str ''US'') # price_row"

definition nan_code_net :: net where
  "nan_code_net url = Got 200 (Some (Records [null_code_row, keyless_row]))"

section \<open>The tables returned for those responses\<close>

definition lse_exchanges_table :: frame where
  "lse_exchanges_table =
     \<lparr>nrows = 3,
      cols = [(''Name'', [Str ''London Exchange'', Str ''New York Stock Exchange'', Str ''NASDAQ'']),
              (''Code'', [Str ''LSE'', Str ''NYSE'', Str ''NASDAQ'']),
              (''OperatingMIC'', [Str ''XLON'', Str ''XNYS'', Str ''XNAS'']),
              (''Country'', [Str ''UK'', Str ''US'', Str ''US'']),
              (''Currency'', [Str ''GBP'', Str ''USD'', Str ''USD'']),
              (''CountryISO2'', [Str ''GB'', Str ''US'', Str ''US'']),
              (''CountryISO3'', [Str ''GBR'', Str ''USA'', Str ''USA'']),
              (''Source'', [Str ''EoDHD.com'', Str ''Manual_Input'', Str ''Manual_Input'']),
              (''Date_Updated'', [Stamp 0, Stamp 0, Stamp 0])]\<rparr>"

definition tickers_table :: frame where
  "tickers_table =
     \<lparr>nrows = 2,
      cols = [(''Ticker_ID'', [Str ''VOD_LSE'', NA]),
              (''Code'', [Str ''VOD'', NA]),
              (''Name'', [Str ''Vodafone'', Str ''Unnamed'']),
              (''Country'', [Str ''UK'', Str ''USA'']),
              (''Exchange'', [Str ''LSE'', Str ''NYSE'']),
              (''EoDHD_Exchange'', [Str ''LSE'', Str ''US'']),
              (''Currency'', [Str ''GBX'', Str ''USD'']),
              (''Type'', [Str ''Common Stock'', Str ''Common Stock'']),
              (''Isin'', [Str ''GB00BH4HKS39'', NA]),
              (''Source'', [Str ''EoDHD.com - Exchange LSE'', Str ''EoDHD.com - Exchange LSE'']),
              (''Date_Updated'', [Stamp 0, Stamp 0])]\<rparr>"

definition aapl_history :: frame where
  "aapl_history =
     \<lparr>nrows = 1,
      cols = [(''Ticker_ID'', [Str ''AAPL_US'']), (''Date'', [Str ''2024-01-02'']),
              (''Open'', [Num 187]), (''High'', [Num 188]), (''Low'', [Num 183]),
              (''Close'', [Num 185]), (''Adjusted_Close'', [Num 185]),
              (''Volume'', [Num 82488700])]\<rparr>"

definition aapl_daily :: frame where
  "aapl_daily =
     \<lparr>nrows = 1,
      cols = [(''Date'', [Str ''2024-01-02'']), (''Open'', [Num 187]), (''High'', [Num 188]),
              (''Low'', [Num 183]), (''Close'', [Num 185]), (''Adjusted_Close'', [Num 185]),
              (''Volume'', [Num 82488700]), (''Ticker_ID'', [Str ''AAPL_US''])]\<rparr>"

text \<open>
  What the two functions return when the provider's rows lead with a field named
  \<open>Ticker_ID\<close>: every label sits one column too far to the left, and the column
  labelled \<open>Ticker_ID\<close> holds the provider's volume.
\<close>

definition shifted_history :: frame where
  "shifted_history =
     \<lparr>nrows = 1,
      cols = [(''Ticker_ID'', [Num 82488700]), (''Date'', [Str ''AAPL_US'']),
              (''Open'', [Str ''2024-01-02'']), (''High'', [Num 187]), (''Low'', [Num 188]),
              (''Close'', [Num 183]), (''Adjusted_Close'', [Num 185]),
              (''Volume'', [Num 185])]\<rparr>"

definition shifted_daily :: frame where
  "shifted_daily =
     \<lparr>nrows = 1,
      cols = [(''Date'', [Str ''AAPL_US'']), (''Open'', [Str ''2024-01-02'']),
              (''High'', [Num 187]), (''Low'', [Num 188]), (''Close'', [Num 183]),
              (''Adjusted_Close'', [Num 185]), (''Volume'', [Num 185]),
              (''Ticker_ID'', [Num 82488700])]\<rparr>"

section \<open>Properties of the table operations and of the request helper\<close>

text \<open>The dtype of a column is unfolded only where a concrete response is evaluated.\<close>

declare numeric_column.simps [simp del]


lemma seq_Inr: "seq m f = Inr y \<longleftrightarrow> (\<exists>x. m = Inr x \<and> f x = Inr y)"
  by (cases m) (simp_all add: seq_def)

lemma seq_Inl: "seq m f = Inl e \<longleftrightarrow> m = Inl e \<or> (\<exists>x. m = Inr x \<and> f x = Inl e)"
  by (cases m) (simp_all add: seq_def)

lemma seq_simps [simp]: "seq (Inl e) f = Inl e" "seq (Inr x) f = f x"
  by (simp_all add: seq_def)

lemma make_api_request_Got:
  "net url = Got st p \<Longrightarrow>
   make_api_request net url =
     (case p of
        Some b \<Rightarrow> if 400 \<le> st \<and> st < 600 then (Inr None, [(ERROR, ''API request failed'')])
                  else (Inr (Some b), [])
      | None \<Rightarrow> (Inr None, [(ERROR, ''API request failed'')]))"
  by (simp add: make_api_request_def requests_get_def raise_for_status_def response_json_def
      split: option.splits)

lemma make_api_request_Unreachable:
  "net url = Unreachable \<Longrightarrow>
   make_api_request net url = (Inr None, [(ERROR, ''API request failed'')])"
  by (simp add: make_api_request_def requests_get_def)

lemma make_api_request_cases:
  "make_api_request net url = (Inr None, [(ERROR, ''API request failed'')]) \<or>
   (\<exists>st b. net url = Got st (Some b) \<and> \<not> (400 \<le> st \<and> st < 600) \<and>
      make_api_request net url = (Inr (Some b), []))"
proof (cases "net url")
  case Unreachable
  then show ?thesis by (simp add: make_api_request_Unreachable)
next
  case (Got st p)
  then show ?thesis by (cases p) (auto simp: make_api_request_Got)
qed



lemma set_uniq [simp]: "set (uniq xs) = set xs"
  by (induction xs) auto

lemma distinct_uniq [simp]: "distinct (uniq xs)"
  by (induction xs) (auto simp: distinct_removeAll)

lemma uniq_Nil_iff [simp]: "uniq xs = [] \<longleftrightarrow> xs = []"
  by (cases xs) simp_all

lemma map_of_tabulate:
  "map_of (map (\<lambda>k. (k, f k)) ks) k = (if k \<in> set ks then Some (f k) else None)"
  by (induction ks) auto

lemma select_Inr_labels: "select cs ks = Inr r \<Longrightarrow> map fst r = ks"
  by (induction ks arbitrary: r) (auto split: option.splits sum.splits)

lemma select_Inr_map_of:
  "select cs ks = Inr r \<Longrightarrow> k \<in> set ks \<Longrightarrow> map_of r k = map_of cs k"
  by (induction ks arbitrary: r) (auto split: option.splits sum.splits)

lemma select_Inr_iff:
  "(\<exists>r. select cs ks = Inr r) \<longleftrightarrow> set ks \<subseteq> fst ` set cs"
proof (induction ks)
  case Nil
  then show ?case by simp
next
  case (Cons k ks)
  show ?case
  proof (cases "map_of cs k")
    case None
    then have "k \<notin> fst ` set cs" by (simp add: map_of_eq_None_iff)
    with None show ?thesis by simp
  next
    case (Some xs)
    then have "k \<in> fst ` set cs" by (metis map_of_eq_None_iff option.distinct(1))
    with Some Cons show ?thesis by (auto split: sum.splits)
  qed
qed

lemma select_Inl: "select cs ks = Inl e \<Longrightarrow> e = KeyError"
  by (induction ks) (auto split: option.splits sum.splits)

lemma getitem_list_Inr:
  "getitem_list df ks = Inr r \<Longrightarrow>
     columns r = ks \<and> nrows r = nrows df \<and> (\<forall>k\<in>set ks. map_of (cols r) k = map_of (cols df) k)"
  by (auto simp: getitem_list_def columns_def select_Inr_labels select_Inr_map_of
      split: sum.splits)

lemma map_of_setitem:
  "map_of (cols (setitem df k xs)) k' = (if k' = k then Some xs else map_of (cols df) k')"
proof (cases "k \<in> set (columns df)")
  case True
  have "map_of (map (\<lambda>(a, ys). if a = k then (a, xs) else (a, ys)) cs) k' =
        (if k' = k then (if k \<in> fst ` set cs then Some xs else None) else map_of cs k')" for cs
    by (induction cs) force+
  with True show ?thesis by (simp add: setitem_def columns_def)
next
  case False
  then have "map_of (cols df) k = None" by (simp add: columns_def map_of_eq_None_iff)
  with False show ?thesis by (auto simp: setitem_def map_add_def split: option.splits)
qed

lemma nrows_setitem [simp]: "nrows (setitem df k xs) = nrows df"
  by (simp add: setitem_def)

lemma nrows_setitem_scalar [simp]: "nrows (setitem_scalar df k v) = nrows df"
  by (simp add: setitem_scalar_def)

lemma columns_setitem:
  "columns (setitem df k xs) = (if k \<in> set (columns df) then columns df else columns df @ [k])"
proof -
  have "map fst (map (\<lambda>(a, ys). if a = k then (a, xs) else (a, ys)) cs) = map fst cs" for cs
    by (induction cs) auto
  then show ?thesis by (simp add: setitem_def columns_def)
qed

lemma map_of_setitem_scalar:
  "map_of (cols (setitem_scalar df k v)) k' =
     (if k' = k then Some (replicate (nrows df) v) else map_of (cols df) k')"
  by (simp add: setitem_scalar_def map_of_setitem)

lemma columns_setitem_scalar:
  "columns (setitem_scalar df k v) = (if k \<in> set (columns df) then columns df else columns df @ [k])"
  by (simp add: setitem_scalar_def columns_setitem)

lemma DataFrame_Records:
  "DataFrame (Some (Records rows)) = Inr df \<Longrightarrow>
     nrows df = length rows \<and> columns df = key_union rows \<and>
     (\<forall>k. map_of (cols df) k =
        (if k \<in> set (key_union rows) then Some (map (\<lambda>r. dict_get r k) rows) else None))"
  by (auto simp: columns_def comp_def map_of_tabulate)

lemma add_cells_Inr:
  "add_cells cs s = Inr r \<Longrightarrow>
     length r = length cs \<and> (\<forall>i<length cs. add_str (cs ! i) s = Inr (r ! i))"
proof (induction cs arbitrary: r)
  case Nil
  then show ?case by simp
next
  case (Cons c cs)
  then show ?case
    by (auto split: sum.splits simp: nth_Cons split: nat.splits)
qed

lemma series_add_Inr_iff:
  "series_add numeric cs s = Inr r \<longleftrightarrow> \<not> numeric \<and> add_cells cs s = Inr r"
  by (simp add: series_add_def)

lemma add_cells_Inr_iff:
  "(\<exists>r. add_cells cs s = Inr r) \<longleftrightarrow> (\<forall>c\<in>set cs. c = NA \<or> (\<exists>t. c = Str t))"
proof (induction cs)
  case Nil
  then show ?case by simp
next
  case (Cons c cs)
  then show ?case by (cases c) (auto split: sum.splits)
qed

lemma set_columns_Inr:
  "set_columns df ks = Inr r \<Longrightarrow>
     length ks = length (cols df) \<and> columns r = ks \<and> nrows r = nrows df \<and>
     cols r = zip ks (map snd (cols df))"
  by (auto simp: set_columns_def columns_def split: if_splits)

lemma drop_columns_Inr:
  "drop_columns df ks = Inr r \<Longrightarrow>
     set ks \<subseteq> set (columns df) \<and> nrows r = nrows df \<and>
     cols r = filter (\<lambda>(k, xs). k \<notin> set ks) (cols df)"
  by (auto simp: drop_columns_def split: if_splits)


lemma retrieve_historical_price_Got:
  "net (''https://eodhd.com/api/eod/'' @ (ticker @ ''.'' @ exchange) @ ''?api_token=''
        @ eodhd_api @ ''&from='' @ ''1900-01-01'' @ ''&to='' @ date_to @ ''&fmt=json'')
     = Got st (Some b) \<Longrightarrow>
   DataFrame (Some b) = Inr df \<Longrightarrow>
   retrieve_historical_price net exchange ticker date_to eodhd_api =
     (if df_empty df
      then (Inr None, [(DEBUG, ''No data returned for Ticker: '' @ ticker
                          @ '' on Exchange: '' @ exchange)])
      else (case seq (set_columns (setitem_scalar df ''Ticker_ID''
                                     (Str (replace_dots (ticker @ ''.'' @ exchange))))
                        (take (length (columns (setitem_scalar df ''Ticker_ID''
                                     (Str (replace_dots (ticker @ ''.'' @ exchange))))))
                              PRICE_COLUMNS))
                   (\<lambda>price_data. getitem_list price_data PRICE_COLUMNS_SORTED) of
              Inr r \<Rightarrow> (Inr (Some r), [])
            | Inl e \<Rightarrow> (Inr None, [(ERROR, ''Updating historical price data -Ticker: '' @ ticker)])))"
  by (simp add: retrieve_historical_price_def historical_try_def requests_get_def
      response_json_def Let_def seq_def split: sum.splits)


lemma make_api_request_failed:
  "failed (net url) \<Longrightarrow>
   make_api_request net url = (Inr None, [(ERROR, ''API request failed'')])"
  by (cases "net url")
     (auto simp: make_api_request_Unreachable make_api_request_Got split: option.splits)

lemma tickers_reshape_Inr:
  assumes "tickers_reshape now exchange (Some (Records rows)) = Inr df"
  shows "columns df = TICKER_COLUMNS" and "nrows df = length rows"
    and "\<exists>tid. add_cells (map (\<lambda>r. dict_get r ''Code'') rows) (''_'' @ exchange) = Inr tid
           \<and> map_of (cols df) ''Ticker_ID'' = Some tid"
    and "map_of (cols df) ''EoDHD_Exchange'' =
           Some (map us_collapse (map (\<lambda>r. dict_get r ''Exchange'') rows))"
proof -
  define df0 where "df0 = \<lparr>nrows = length rows,
          cols = map (\<lambda>k. (k, map (\<lambda>r. dict_get r k) rows)) (key_union rows)\<rparr>"
  define df2 where "df2 = setitem_scalar
      (setitem_scalar df0 ''Source'' (Str (''EoDHD.com - Exchange '' @ exchange)))
      ''Date_Updated'' (Stamp (now 0))"
  have m0: "map_of (cols df0) k =
        (if k \<in> set (key_union rows) then Some (map (\<lambda>r. dict_get r k) rows) else None)" for k
    by (simp add: df0_def map_of_tabulate)
  have m2c: "map_of (cols df2) ''Code'' = map_of (cols df0) ''Code''"
    and m2e: "map_of (cols df2) ''Exchange'' = map_of (cols df0) ''Exchange''"
    by (simp_all add: df2_def map_of_setitem_scalar)
  from assms obtain code tid ex where
    code: "getitem df2 ''Code'' = Inr code"
    and tid: "add_cells code (''_'' @ exchange) = Inr tid"
    and ex: "getitem (setitem df2 ''Ticker_ID'' tid) ''Exchange'' = Inr ex"
    and sel: "getitem_list (setitem (setitem df2 ''Ticker_ID'' tid) ''EoDHD_Exchange''
                (map us_collapse ex)) TICKER_COLUMNS = Inr df"
    by (auto simp: tickers_reshape_def Let_def seq_Inr series_add_Inr_iff df2_def df0_def)
  from code have code_eq: "code = map (\<lambda>r. dict_get r ''Code'') rows"
    by (auto simp: getitem_def m2c m0 split: option.splits if_splits)
  from ex have ex_eq: "ex = map (\<lambda>r. dict_get r ''Exchange'') rows"
    by (auto simp: getitem_def map_of_setitem m2e m0 split: option.splits if_splits)
  note g = getitem_list_Inr [OF sel]
  from g show "columns df = TICKER_COLUMNS" by simp
  from g show "nrows df = length rows" by (simp add: df2_def df0_def)
  have "map_of (cols df) ''Ticker_ID'' = Some tid"
    using g by (simp add: TICKER_COLUMNS_def map_of_setitem)
  with tid code_eq show "\<exists>tid. add_cells (map (\<lambda>r. dict_get r ''Code'') rows) (''_'' @ exchange) = Inr tid
           \<and> map_of (cols df) ''Ticker_ID'' = Some tid"
    by auto
  show "map_of (cols df) ''EoDHD_Exchange'' =
           Some (map us_collapse (map (\<lambda>r. dict_get r ''Exchange'') rows))"
    using g ex_eq by (simp add: TICKER_COLUMNS_def map_of_setitem)
qed

lemma retrieve_tickers_cases:
  "(\<exists>lg. retrieve_tickers net now api_key exchange = (Inr None, lg)) \<or>
   (\<exists>st rows df.
      net (TICKERS @ ''/'' @ exchange @ ''?api_token='' @ api_key @ ''&fmt=json'')
        = Got st (Some (Records rows)) \<and> rows \<noteq> [] \<and>
      tickers_reshape now exchange (Some (Records rows)) = Inr df \<and>
      retrieve_tickers net now api_key exchange = (Inr (Some df), []))"
proof -
  let ?url = "TICKERS @ ''/'' @ exchange @ ''?api_token='' @ api_key @ ''&fmt=json''"
  from make_api_request_cases [of net ?url] show ?thesis
  proof
    assume "make_api_request net ?url = (Inr None, [(ERROR, ''API request failed'')])"
    then show ?thesis by (simp add: retrieve_tickers_def py_not_def)
  next
    assume "\<exists>st b. net ?url = Got st (Some b) \<and> \<not> (400 \<le> st \<and> st < 600) \<and>
      make_api_request net ?url = (Inr (Some b), [])"
    then obtain st b where b: "net ?url = Got st (Some b)"
      "make_api_request net ?url = (Inr (Some b), [])" by blast
    show ?thesis
    proof (cases b)
      case (Records rows)
      with b show ?thesis
        by (cases "tickers_reshape now exchange (Some (Records rows))")
           (auto simp: retrieve_tickers_def py_not_def)
    next
      case (Object d)
      with b show ?thesis by (simp add: retrieve_tickers_def)
    next
      case (Scalar c)
      with b show ?thesis by (simp add: retrieve_tickers_def)
    qed
  qed
qed

lemma retrieve_tickers_table_or_absent:
  "table_or_absent (retrieve_tickers net now api_key exchange)"
proof -
  from retrieve_tickers_cases [of net now api_key exchange] show ?thesis
  proof (elim disjE exE conjE)
    fix lg assume "retrieve_tickers net now api_key exchange = (Inr None, lg)"
    then show ?thesis by (simp add: table_or_absent_def)
  next
    fix st rows df
    assume ne: "rows \<noteq> []"
      and r: "tickers_reshape now exchange (Some (Records rows)) = Inr df"
      and res: "retrieve_tickers net now api_key exchange = (Inr (Some df), [])"
    from tickers_reshape_Inr(1,2) [OF r] ne have "\<not> df_empty df"
      by (auto simp: df_empty_def columns_def TICKER_COLUMNS_def)
    with res show ?thesis by (simp add: table_or_absent_def)
  qed
qed

lemma us_frame:
  "DataFrame (Some (Records (us_exchange_rows now))) =
     Inr \<lparr>nrows = 2,
          cols = [(''Name'', [Str ''New York Stock Exchange'', Str ''NASDAQ'']),
                  (''OperatingMIC'', [Str ''XNYS'', Str ''XNAS'']),
                  (''Country'', [Str ''US'', Str ''US'']),
                  (''Currency'', [Str ''USD'', Str ''USD'']),
                  (''CountryISO2'', [Str ''US'', Str ''US'']),
                  (''CountryISO3'', [Str ''USA'', Str ''USA'']),
                  (''Code'', [Str ''NYSE'', Str ''NASDAQ'']),
                  (''Source'', [Str ''Manual_Input'', Str ''Manual_Input'']),
                  (''Date_Updated'', [Stamp (now 1), Stamp (now 2)])]\<rparr>"
  by (simp add: us_exchange_rows_def us_exchange_row_def US_EXCHANGES_def dict_set_def
      key_union_def dict_get_def numeral_2_eq_2)

lemma map_of_pd_concat:
  "map_of (cols (pd_concat a b)) k =
     (if k \<in> set (columns a) \<union> set (columns b)
      then Some (column_or_na a k @ column_or_na b k) else None)"
  by (simp add: pd_concat_def map_of_tabulate)

lemma cell_at_concat_left:
  assumes "map_of (cols a) k = Some xs" and "i < length xs"
  shows "cell_at (pd_concat a b) k i = Some (xs ! i)"
proof -
  from assms(1) have "k \<in> set (columns a)"
    by (metis columns_def map_of_eq_None_iff option.distinct(1) set_map)
  with assms show ?thesis
    by (simp add: cell_at_def map_of_pd_concat column_or_na_def nth_append)
qed

lemma cell_at_concat_right:
  assumes "length (column_or_na a k) = nrows a" and "map_of (cols b) k = Some ys"
    and "j < length ys"
  shows "cell_at (pd_concat a b) k (nrows a + j) = Some (ys ! j)"
proof -
  from assms(2) have "k \<in> set (columns b)"
    by (metis columns_def map_of_eq_None_iff option.distinct(1) set_map)
  with assms show ?thesis
    by (simp add: cell_at_def map_of_pd_concat column_or_na_def nth_append)
qed

lemma exchanges_reshape_Records:
  "exchanges_reshape now (Some (Records rows)) =
     Inr (pd_concat
            (setitem_scalar
               (setitem_scalar
                  \<lparr>nrows = length rows,
                   cols = map (\<lambda>k. (k, map (\<lambda>r. dict_get r k) rows)) (key_union rows)\<rparr>
                  ''Source'' (Str ''EoDHD.com''))
               ''Date_Updated'' (Stamp (now 0)))
            \<lparr>nrows = 2,
             cols = [(''Name'', [Str ''New York Stock Exchange'', Str ''NASDAQ'']),
                  (''OperatingMIC'', [Str ''XNYS'', Str ''XNAS'']),
                  (''Country'', [Str ''US'', Str ''US'']),
                  (''Currency'', [Str ''USD'', Str ''USD'']),
                  (''CountryISO2'', [Str ''US'', Str ''US'']),
                  (''CountryISO3'', [Str ''USA'', Str ''USA'']),
                  (''Code'', [Str ''NYSE'', Str ''NASDAQ'']),
                  (''Source'', [Str ''Manual_Input'', Str ''Manual_Input'']),
                  (''Date_Updated'', [Stamp (now 1), Stamp (now 2)])]\<rparr>)"
  unfolding exchanges_reshape_def us_frame by (simp add: Let_def)

lemma retrieve_exchanges_cases:
  "(\<exists>lg. retrieve_exchanges net now api_key = (Inr None, lg)) \<or>
   (\<exists>st rows df.
      net (EXCHANGES @ ''/?api_token='' @ api_key @ ''&fmt=json'')
        = Got st (Some (Records rows)) \<and> rows \<noteq> [] \<and>
      exchanges_reshape now (Some (Records rows)) = Inr df \<and>
      retrieve_exchanges net now api_key = (Inr (Some df), []))"
proof -
  let ?url = "EXCHANGES @ ''/?api_token='' @ api_key @ ''&fmt=json''"
  from make_api_request_cases [of net ?url] show ?thesis
  proof
    assume "make_api_request net ?url = (Inr None, [(ERROR, ''API request failed'')])"
    then show ?thesis by (simp add: retrieve_exchanges_def py_not_def)
  next
    assume "\<exists>st b. net ?url = Got st (Some b) \<and> \<not> (400 \<le> st \<and> st < 600) \<and>
      make_api_request net ?url = (Inr (Some b), [])"
    then obtain st b where b: "net ?url = Got st (Some b)"
      "make_api_request net ?url = (Inr (Some b), [])" by blast
    show ?thesis
    proof (cases b)
      case (Records rows)
      with b show ?thesis
        by (auto simp: retrieve_exchanges_def py_not_def exchanges_reshape_Records)
    next
      case (Object d)
      with b show ?thesis
        by (simp add: retrieve_exchanges_def py_not_def exchanges_reshape_def)
    next
      case (Scalar c)
      with b show ?thesis
        by (simp add: retrieve_exchanges_def py_not_def exchanges_reshape_def)
    qed
  qed
qed

lemma retrieve_exchanges_table_or_absent:
  "table_or_absent (retrieve_exchanges net now api_key)"
proof -
  from retrieve_exchanges_cases [of net now api_key] show ?thesis
  proof (elim disjE exE conjE)
    fix lg assume "retrieve_exchanges net now api_key = (Inr None, lg)"
    then show ?thesis by (simp add: table_or_absent_def)
  next
    fix st rows df
    assume r: "exchanges_reshape now (Some (Records rows)) = Inr df"
      and res: "retrieve_exchanges net now api_key = (Inr (Some df), [])"
    from r have "\<not> df_empty df"
      by (auto simp: exchanges_reshape_Records df_empty_def pd_concat_def columns_def)
    with res show ?thesis by (simp add: table_or_absent_def)
  qed
qed


lemma list8:
  "length xs = 8 \<Longrightarrow> \<exists>a b c d e f g h. xs = [a, b, c, d, e, f, g, h]"
  by (auto simp: length_Suc_conv numeral_eq_Suc)

lemma nth7_by_label:
  assumes "length cs = 8" and "map_of cs k = Some v" and "k \<notin> set (take 7 (map fst cs))"
  shows "cs ! 7 = (k, v)"
proof -
  from list8 [OF assms(1)] obtain a b c d e f g h where cs: "cs = [a, b, c, d, e, f, g, h]"
    by blast
  with assms(2,3) show ?thesis
    by (cases h) (auto split: if_splits)
qed

text \<open>The two layouts of an eight-column table, by position.\<close>

lemma relabel_sorted:
  assumes "length (cols d) = 8"
  shows "set_columns d PRICE_COLUMNS = Inr (d\<lparr>cols := zip PRICE_COLUMNS (map snd (cols d))\<rparr>)"
    and "getitem_list (d\<lparr>cols := zip PRICE_COLUMNS (map snd (cols d))\<rparr>) PRICE_COLUMNS_SORTED =
           Inr (d\<lparr>cols := [(''Ticker_ID'', snd (cols d ! 7)), (''Date'', snd (cols d ! 0)),
                            (''Open'', snd (cols d ! 1)), (''High'', snd (cols d ! 2)),
                            (''Low'', snd (cols d ! 3)), (''Close'', snd (cols d ! 4)),
                            (''Adjusted_Close'', snd (cols d ! 5)),
                            (''Volume'', snd (cols d ! 6))]\<rparr>)"
    and "getitem_list (d\<lparr>cols := [(''Ticker_ID'', snd (cols d ! 7)), (''Date'', snd (cols d ! 0)),
                            (''Open'', snd (cols d ! 1)), (''High'', snd (cols d ! 2)),
                            (''Low'', snd (cols d ! 3)), (''Close'', snd (cols d ! 4)),
                            (''Adjusted_Close'', snd (cols d ! 5)),
                            (''Volume'', snd (cols d ! 6))]\<rparr>) PRICE_COLUMNS =
           Inr (d\<lparr>cols := zip PRICE_COLUMNS (map snd (cols d))\<rparr>)"
proof -
  from list8 [OF assms] obtain a b c e f g h i where cs: "cols d = [a, b, c, e, f, g, h, i]"
    by blast
  show "set_columns d PRICE_COLUMNS = Inr (d\<lparr>cols := zip PRICE_COLUMNS (map snd (cols d))\<rparr>)"
    using assms by (simp add: set_columns_def PRICE_COLUMNS_def)
  show "getitem_list (d\<lparr>cols := zip PRICE_COLUMNS (map snd (cols d))\<rparr>) PRICE_COLUMNS_SORTED =
           Inr (d\<lparr>cols := [(''Ticker_ID'', snd (cols d ! 7)), (''Date'', snd (cols d ! 0)),
                            (''Open'', snd (cols d ! 1)), (''High'', snd (cols d ! 2)),
                            (''Low'', snd (cols d ! 3)), (''Close'', snd (cols d ! 4)),
                            (''Adjusted_Close'', snd (cols d ! 5)),
                            (''Volume'', snd (cols d ! 6))]\<rparr>)"
    by (simp add: cs getitem_list_def PRICE_COLUMNS_def PRICE_COLUMNS_SORTED_def)
  show "getitem_list (d\<lparr>cols := [(''Ticker_ID'', snd (cols d ! 7)), (''Date'', snd (cols d ! 0)),
                            (''Open'', snd (cols d ! 1)), (''High'', snd (cols d ! 2)),
                            (''Low'', snd (cols d ! 3)), (''Close'', snd (cols d ! 4)),
                            (''Adjusted_Close'', snd (cols d ! 5)),
                            (''Volume'', snd (cols d ! 6))]\<rparr>) PRICE_COLUMNS =
           Inr (d\<lparr>cols := zip PRICE_COLUMNS (map snd (cols d))\<rparr>)"
    by (simp add: cs getitem_list_def PRICE_COLUMNS_def)
qed

lemma historical_relabel_eight:
  assumes "seq (set_columns d (take (length (columns d)) PRICE_COLUMNS))
             (\<lambda>price_data. getitem_list price_data PRICE_COLUMNS_SORTED) = Inr r"
  shows "length (cols d) = 8"
proof -
  let ?m = "length (cols d)"
  from assms obtain d1 where d1: "set_columns d (take ?m PRICE_COLUMNS) = Inr d1"
    and r: "getitem_list d1 PRICE_COLUMNS_SORTED = Inr r"
    by (auto simp: seq_Inr columns_def)
  from set_columns_Inr [OF d1] have le: "?m \<le> 8" and c1: "columns d1 = take ?m PRICE_COLUMNS"
    by (auto simp: PRICE_COLUMNS_def)
  from r have "\<exists>r. select (cols d1) PRICE_COLUMNS_SORTED = Inr r"
    by (auto simp: getitem_list_def split: sum.splits)
  then have "set PRICE_COLUMNS_SORTED \<subseteq> set (columns d1)"
    by (simp add: select_Inr_iff columns_def)
  then have "''Ticker_ID'' \<in> set (take ?m PRICE_COLUMNS)"
    by (simp add: c1 PRICE_COLUMNS_SORTED_def)
  then have "\<not> ?m \<le> 7"
    by (auto simp: PRICE_COLUMNS_def take_Cons' split: if_splits)
  with le show ?thesis by simp
qed

lemma take7_setitem:
  assumes "length (cols (setitem d k xs)) = 8" and "k \<notin> set (take 7 (columns d))"
  shows "k \<notin> set (take 7 (map fst (cols (setitem d k xs))))"
proof (cases "k \<in> set (columns d)")
  case True
  with assms(2) show ?thesis
    using columns_setitem [of d k xs] by (simp add: columns_def)
next
  case False
  with assms(1) have "length (columns d) = 7"
    by (simp add: setitem_def columns_def)
  with False show ?thesis
    using columns_setitem [of d k xs] by (simp add: columns_def)
qed

lemma retrieve_historical_price_Unreachable:
  "net (''https://eodhd.com/api/eod/'' @ (ticker @ ''.'' @ exchange) @ ''?api_token=''
        @ eodhd_api @ ''&from='' @ ''1900-01-01'' @ ''&to='' @ date_to @ ''&fmt=json'')
     = Unreachable \<Longrightarrow>
   retrieve_historical_price net exchange ticker date_to eodhd_api =
     (Inr None, [(ERROR, ''Updating historical price data -Ticker: '' @ ticker)])"
  by (simp add: retrieve_historical_price_def historical_try_def requests_get_def Let_def)

lemma retrieve_historical_price_not_json:
  "net (''https://eodhd.com/api/eod/'' @ (ticker @ ''.'' @ exchange) @ ''?api_token=''
        @ eodhd_api @ ''&from='' @ ''1900-01-01'' @ ''&to='' @ date_to @ ''&fmt=json'')
     = Got st None \<Longrightarrow>
   retrieve_historical_price net exchange ticker date_to eodhd_api =
     (Inr None, [(ERROR, ''Updating historical price data -Ticker: '' @ ticker)])"
  by (simp add: retrieve_historical_price_def historical_try_def requests_get_def
      response_json_def Let_def)

lemma retrieve_historical_price_bad_shape:
  "net (''https://eodhd.com/api/eod/'' @ (ticker @ ''.'' @ exchange) @ ''?api_token=''
        @ eodhd_api @ ''&from='' @ ''1900-01-01'' @ ''&to='' @ date_to @ ''&fmt=json'')
     = Got st (Some b) \<Longrightarrow> DataFrame (Some b) = Inl e \<Longrightarrow>
   retrieve_historical_price net exchange ticker date_to eodhd_api =
     (Inr None, [(ERROR, ''Updating historical price data -Ticker: '' @ ticker)])"
  by (simp add: retrieve_historical_price_def historical_try_def requests_get_def
      response_json_def Let_def)

lemma retrieve_historical_price_table_or_absent:
  "table_or_absent (retrieve_historical_price net exchange ticker date_to eodhd_api)"
proof -
  let ?url = "''https://eodhd.com/api/eod/'' @ (ticker @ ''.'' @ exchange) @ ''?api_token=''
        @ eodhd_api @ ''&from='' @ ''1900-01-01'' @ ''&to='' @ date_to @ ''&fmt=json''"
  let ?res = "retrieve_historical_price net exchange ticker date_to eodhd_api"
  show ?thesis
  proof (cases "net ?url")
    case Unreachable
    then show ?thesis
      by (simp add: retrieve_historical_price_Unreachable table_or_absent_def)
  next
    case (Got st p)
    show ?thesis
    proof (cases p)
      case None
      with Got show ?thesis
        by (simp add: retrieve_historical_price_not_json table_or_absent_def)
    next
      case (Some b)
      show ?thesis
      proof (cases "DataFrame (Some b)")
        case (Inl e)
        with Got Some show ?thesis
          by (simp add: retrieve_historical_price_bad_shape table_or_absent_def)
      next
        case (Inr df)
        let ?d = "setitem_scalar df ''Ticker_ID'' (Str (replace_dots (ticker @ ''.'' @ exchange)))"
        let ?step = "seq (set_columns ?d (take (length (columns ?d)) PRICE_COLUMNS))
                       (\<lambda>price_data. getitem_list price_data PRICE_COLUMNS_SORTED)"
        note eq = retrieve_historical_price_Got [of net ticker exchange eodhd_api date_to st b df]
        show ?thesis
        proof (cases "df_empty df")
          case True
          with Got Some Inr eq show ?thesis by (simp add: table_or_absent_def)
        next
          case False
          show ?thesis
          proof (cases ?step)
            case (Inl e)
            with Got Some Inr eq False show ?thesis by (simp add: table_or_absent_def)
          next
            case r: (Inr r)
            then obtain d1 where "set_columns ?d (take (length (columns ?d)) PRICE_COLUMNS) = Inr d1"
              and "getitem_list d1 PRICE_COLUMNS_SORTED = Inr r"
              by (auto simp: seq_Inr)
            with set_columns_Inr [of ?d _ d1] getitem_list_Inr [of d1 _ r]
            have "columns r = PRICE_COLUMNS_SORTED" and "nrows r = nrows df" by simp_all
            with False have "\<not> df_empty r"
              by (auto simp: df_empty_def columns_def PRICE_COLUMNS_SORTED_def)
            with Got Some Inr eq False r show ?thesis by (simp add: table_or_absent_def)
          qed
        qed
      qed
    qed
  qed
qed


lemma map_of_filter_fst:
  "map_of (filter (\<lambda>(k, v). P k) cs) k = (if P k then map_of cs k else None)"
  by (induction cs) auto

lemma length_filter_split:
  "distinct xs \<Longrightarrow> x \<in> set xs \<Longrightarrow> P x \<Longrightarrow>
     length (filter P xs) = Suc (length (filter (\<lambda>k. P k \<and> k \<noteq> x) xs))"
proof (induction xs)
  case Nil
  then show ?case by simp
next
  case (Cons y ys)
  show ?case
  proof (cases "y = x")
    case True
    with Cons.prems have "x \<notin> set ys" by simp
    then have "filter (\<lambda>k. P k \<and> k \<noteq> x) ys = filter P ys"
      by (intro filter_cong) auto
    with True Cons.prems show ?thesis by simp
  next
    case False
    with Cons show ?thesis by simp
  qed
qed

lemma distinct_key_union [simp]: "distinct (key_union rows)"
  by (simp add: key_union_def)

lemma zip_price_columns_ticker_id:
  "length cs = 8 \<Longrightarrow> map_of (zip PRICE_COLUMNS (map snd cs)) ''Ticker_ID'' = Some (snd (cs ! 7))"
  by (drule list8) (auto simp: PRICE_COLUMNS_def)

text \<open>The table of \<^verbatim>\<open>retrieve_daily_price\<close> just before the relabelling.\<close>

lemma daily_columns_before_relabel:
  "length (filter (\<lambda>(k, xs). k \<notin> set [''code'', ''exchange_short_name''])
             (cols (setitem \<lparr>nrows = n, cols = map (\<lambda>k. (k, f k)) K\<rparr> ''Ticker_ID'' tid))) =
   Suc (length (filter (\<lambda>k. k \<notin> {''code'', ''exchange_short_name'', ''Ticker_ID''}) K))"
  if "distinct K"
proof -
  let ?P = "\<lambda>k. k \<notin> set [''code'', ''exchange_short_name'']"
  let ?d = "setitem \<lparr>nrows = n, cols = map (\<lambda>k. (k, f k)) K\<rparr> ''Ticker_ID'' tid"
  have "length (filter (\<lambda>(k, xs). ?P k) (cols ?d)) = length (filter ?P (columns ?d))"
    by (simp add: columns_def filter_map comp_def case_prod_unfold)
  also have "columns ?d = (if ''Ticker_ID'' \<in> set K then K else K @ [''Ticker_ID''])"
    by (simp add: columns_setitem) (simp add: columns_def comp_def)
  also have "length (filter ?P (if ''Ticker_ID'' \<in> set K then K else K @ [''Ticker_ID''])) =
      Suc (length (filter (\<lambda>k. k \<notin> {''code'', ''exchange_short_name'', ''Ticker_ID''}) K))"
  proof (cases "''Ticker_ID'' \<in> set K")
    case True
    from length_filter_split [OF that True, of ?P] True show ?thesis
      by (simp add: conj_commute conj_left_commute)
  next
    case False
    then have "filter ?P K = filter (\<lambda>k. k \<notin> {''code'', ''exchange_short_name'', ''Ticker_ID''}) K"
      by (intro filter_cong) auto
    with False show ?thesis by simp
  qed
  finally show ?thesis .
qed


lemma daily_reshape_Records:
  fixes rows exchange
  defines "K \<equiv> key_union rows"
  defines "df0 \<equiv> \<lparr>nrows = length rows,
                   cols = map (\<lambda>k. (k, map (\<lambda>r. dict_get r k) rows)) (key_union rows)\<rparr>"
  shows "daily_reshape exchange (Some (Records rows)) =
     (if ''code'' \<notin> set K then Inl KeyError
      else if numeric_column (Some (Records rows)) ''code'' then Inl TypeError
      else case add_cells (map (\<lambda>r. dict_get r ''code'') rows) (''_'' @ exchange) of
             Inl e \<Rightarrow> Inl e
           | Inr tid \<Rightarrow>
               if ''exchange_short_name'' \<notin> set K then Inl KeyError
               else let d = (setitem df0 ''Ticker_ID'' tid)
                              \<lparr>cols := filter (\<lambda>(k, xs). k \<notin> set [''code'', ''exchange_short_name''])
                                         (cols (setitem df0 ''Ticker_ID'' tid))\<rparr>
                    in if length (cols d) = 8
                       then Inr (d\<lparr>cols := zip PRICE_COLUMNS (map snd (cols d))\<rparr>)
                       else Inl ValueError)"
proof (cases "''code'' \<in> set K")
  case False
  then show ?thesis
    by (simp add: daily_reshape_def getitem_def map_of_tabulate K_def)
next
  case code: True
  then have g: "getitem df0 ''code'' = Inr (map (\<lambda>r. dict_get r ''code'') rows)"
    by (simp add: getitem_def df0_def map_of_tabulate K_def)
  show ?thesis
  proof (cases "series_add (numeric_column (Some (Records rows)) ''code'')
                  (map (\<lambda>r. dict_get r ''code'') rows) (''_'' @ exchange)")
    case (Inl e)
    with code g show ?thesis
      by (auto simp: daily_reshape_def df0_def [symmetric] series_add_def split: if_splits)
  next
    case sa: (Inr tid)
    then have num: "\<not> numeric_column (Some (Records rows)) ''code''"
      and Inr: "add_cells (map (\<lambda>r. dict_get r ''code'') rows) (''_'' @ exchange) = Inr tid"
      unfolding series_add_Inr_iff by blast+
    let ?d1 = "setitem df0 ''Ticker_ID'' tid"
    have c1: "set (columns ?d1) = insert ''Ticker_ID'' (set K)"
      by (auto simp: columns_setitem) (auto simp: df0_def columns_def comp_def K_def)
    show ?thesis
    proof (cases "''exchange_short_name'' \<in> set K")
      case False
      then have "drop_columns ?d1 [''code'', ''exchange_short_name''] = Inl KeyError"
        by (simp add: drop_columns_def c1)
      with code g sa num Inr False show ?thesis
        by (simp add: daily_reshape_def df0_def [symmetric])
    next
      case True
      let ?d = "?d1\<lparr>cols := filter (\<lambda>(k, xs). k \<notin> set [''code'', ''exchange_short_name''])
                                         (cols ?d1)\<rparr>"
      from True code have dr: "drop_columns ?d1 [''code'', ''exchange_short_name''] = Inr ?d"
        by (simp add: drop_columns_def c1)
      show ?thesis
      proof (cases "length (cols ?d) = 8")
        case eight: True
        from relabel_sorted [OF eight] code g sa num Inr True dr eight show ?thesis
          by (simp add: daily_reshape_def df0_def [symmetric] Let_def)
      next
        case False
        then have "set_columns ?d PRICE_COLUMNS = Inl ValueError"
          by (auto simp: set_columns_def PRICE_COLUMNS_def)
        with code g sa num Inr True dr False show ?thesis
          by (simp add: daily_reshape_def df0_def [symmetric] Let_def)
      qed
    qed
  qed
qed


lemma retrieve_daily_price_cases:
  "(\<exists>lg. retrieve_daily_price net exchange api_key = (Inr None, lg)) \<or>
   (\<exists>st rows df.
      net (DAILY @ ''/'' @ exchange @ ''?api_token='' @ api_key @ ''&fmt=json'')
        = Got st (Some (Records rows)) \<and> rows \<noteq> [] \<and>
      daily_reshape exchange (Some (Records rows)) = Inr df \<and>
      retrieve_daily_price net exchange api_key = (Inr (Some df), []))"
proof -
  let ?url = "DAILY @ ''/'' @ exchange @ ''?api_token='' @ api_key @ ''&fmt=json''"
  from make_api_request_cases [of net ?url] show ?thesis
  proof
    assume "make_api_request net ?url = (Inr None, [(ERROR, ''API request failed'')])"
    then show ?thesis by (simp add: retrieve_daily_price_def py_not_def)
  next
    assume "\<exists>st b. net ?url = Got st (Some b) \<and> \<not> (400 \<le> st \<and> st < 600) \<and>
      make_api_request net ?url = (Inr (Some b), [])"
    then obtain st b where b: "net ?url = Got st (Some b)"
      "make_api_request net ?url = (Inr (Some b), [])" by blast
    show ?thesis
    proof (cases b)
      case (Records rows)
      with b show ?thesis
        by (cases "daily_reshape exchange (Some (Records rows))")
           (auto simp: retrieve_daily_price_def py_not_def)
    next
      case (Object d)
      with b show ?thesis
        by (simp add: retrieve_daily_price_def py_not_def daily_reshape_def)
    next
      case (Scalar c)
      with b show ?thesis
        by (simp add: retrieve_daily_price_def py_not_def daily_reshape_def)
    qed
  qed
qed

lemma daily_reshape_Inr:
  assumes "daily_reshape exchange (Some (Records rows)) = Inr df"
  shows "\<exists>tid cs.
    add_cells (map (\<lambda>r. dict_get r ''code'') rows) (''_'' @ exchange) = Inr tid \<and>
    cs = filter (\<lambda>(k, xs). k \<notin> set [''code'', ''exchange_short_name''])
            (cols (setitem \<lparr>nrows = length rows,
                 cols = map (\<lambda>k. (k, map (\<lambda>r. dict_get r k) rows)) (key_union rows)\<rparr>
               ''Ticker_ID'' tid)) \<and>
    length cs = 8 \<and>
    df = \<lparr>nrows = length rows, cols = zip PRICE_COLUMNS (map snd cs)\<rparr> \<and>
    ''code'' \<in> set (key_union rows) \<and> ''exchange_short_name'' \<in> set (key_union rows)"
proof -
  let ?df0 = "\<lparr>nrows = length rows,
                 cols = map (\<lambda>k. (k, map (\<lambda>r. dict_get r k) rows)) (key_union rows)\<rparr>"
  from assms have code: "''code'' \<in> set (key_union rows)"
    unfolding daily_reshape_Records by (simp split: if_splits)
  with assms have num: "\<not> numeric_column (Some (Records rows)) ''code''"
    unfolding daily_reshape_Records by (auto split: if_splits)
  with assms code obtain tid where
    tid: "add_cells (map (\<lambda>r. dict_get r ''code'') rows) (''_'' @ exchange) = Inr tid"
    unfolding daily_reshape_Records by (auto split: sum.splits)
  let ?cs = "filter (\<lambda>(k, xs). k \<notin> set [''code'', ''exchange_short_name''])
            (cols (setitem ?df0 ''Ticker_ID'' tid))"
  from assms code num tid have esn: "''exchange_short_name'' \<in> set (key_union rows)"
    unfolding daily_reshape_Records by (simp split: if_splits)
  from assms code num tid esn have len: "length ?cs = 8"
    unfolding daily_reshape_Records by (simp add: Let_def split: if_splits)
  from assms code num tid esn len
  have "df = (setitem ?df0 ''Ticker_ID'' tid)\<lparr>cols := zip PRICE_COLUMNS (map snd ?cs)\<rparr>"
    unfolding daily_reshape_Records by (simp add: Let_def)
  also have "\<dots> = \<lparr>nrows = length rows, cols = zip PRICE_COLUMNS (map snd ?cs)\<rparr>"
    by (simp add: setitem_def)
  finally show ?thesis using tid len code esn by blast
qed

lemma retrieve_daily_price_table_or_absent:
  "table_or_absent (retrieve_daily_price net exchange api_key)"
proof -
  from retrieve_daily_price_cases [of net exchange api_key] show ?thesis
  proof (elim disjE exE conjE)
    fix lg assume "retrieve_daily_price net exchange api_key = (Inr None, lg)"
    then show ?thesis by (simp add: table_or_absent_def)
  next
    fix st rows df
    assume ne: "rows \<noteq> []"
      and r: "daily_reshape exchange (Some (Records rows)) = Inr df"
      and res: "retrieve_daily_price net exchange api_key = (Inr (Some df), [])"
    from daily_reshape_Inr [OF r] obtain cs :: "(string \<times> cell list) list"
      where "length cs = 8"
      "df = \<lparr>nrows = length rows, cols = zip PRICE_COLUMNS (map snd cs)\<rparr>"
      by blast
    with ne have "\<not> df_empty df"
      by (auto simp: df_empty_def PRICE_COLUMNS_def dest!: list8)
    with res show ?thesis by (simp add: table_or_absent_def)
  qed
qed


text \<open>
  The three functions that go through the request helper: a failed request gives the
  absent result and the error message of the helper.
\<close>

lemma retrieve_tickers_failed:
  "failed (net (TICKERS @ ''/'' @ exchange @ ''?api_token='' @ api_key @ ''&fmt=json'')) \<Longrightarrow>
   retrieve_tickers net now api_key exchange = (Inr None, [(ERROR, ''API request failed'')])"
  by (simp add: retrieve_tickers_def make_api_request_failed py_not_def)

lemma retrieve_exchanges_failed:
  "failed (net (EXCHANGES @ ''/?api_token='' @ api_key @ ''&fmt=json'')) \<Longrightarrow>
   retrieve_exchanges net now api_key = (Inr None, [(ERROR, ''API request failed'')])"
  by (simp add: retrieve_exchanges_def make_api_request_failed py_not_def)

lemma retrieve_daily_price_failed:
  "failed (net (DAILY @ ''/'' @ exchange @ ''?api_token='' @ api_key @ ''&fmt=json'')) \<Longrightarrow>
   retrieve_daily_price net exchange api_key =
     (Inr None, [(ERROR, ''API request failed''),
                 (WARNING, ''No daily price data retrieved for '' @ exchange)])"
  by (simp add: retrieve_daily_price_def make_api_request_failed py_not_def)

lemma retrieve_daily_price_server_error:
  "retrieve_daily_price server_error_net ''US'' ''demo'' =
     (Inr None, [(ERROR, ''API request failed''),
                 (WARNING, ''No daily price data retrieved for US'')])"
  using retrieve_daily_price_failed [of server_error_net "''US''" "''demo''"]
  by (simp add: server_error_net_def)

lemma daily_ticker_id_last:
  fixes rows :: "pydict list"
  defines "df0 \<equiv> \<lparr>nrows = length rows,
                 cols = map (\<lambda>k. (k, map (\<lambda>r. dict_get r k) rows)) (key_union rows)\<rparr>"
  assumes cs: "cs = filter (\<lambda>(k, xs). k \<notin> set [''code'', ''exchange_short_name''])
                      (cols (setitem df0 ''Ticker_ID'' tid))"
    and len: "length cs = 8"
    and pos: "''Ticker_ID'' \<notin> set (take 7 (filter (\<lambda>k. k \<noteq> ''code'' \<and> k \<noteq> ''exchange_short_name'')
                                           (key_union rows)))"
  shows "cs ! 7 = (''Ticker_ID'', tid)"
proof -
  let ?P = "\<lambda>k. k \<notin> set [''code'', ''exchange_short_name'']"
  let ?K = "key_union rows"
  have m: "map_of cs ''Ticker_ID'' = Some tid"
    unfolding cs by (simp add: map_of_filter_fst map_of_setitem)
  have c0: "columns df0 = ?K" by (simp add: df0_def columns_def comp_def)
  have fst_cs: "map fst cs = filter ?P (columns (setitem df0 ''Ticker_ID'' tid))"
    unfolding cs by (simp add: columns_def filter_map comp_def case_prod_unfold)
  have P: "?P = (\<lambda>k. k \<noteq> ''code'' \<and> k \<noteq> ''exchange_short_name'')" by auto
  have "''Ticker_ID'' \<notin> set (take 7 (map fst cs))"
  proof (cases "''Ticker_ID'' \<in> set ?K")
    case True
    then have "map fst cs = filter ?P ?K" by (simp add: fst_cs columns_setitem c0)
    with pos show ?thesis by (simp add: P)
  next
    case False
    then have eq: "map fst cs = filter ?P ?K @ [''Ticker_ID'']"
      by (simp add: fst_cs columns_setitem c0)
    have "length (map fst cs) = 8" using len by simp
    then have "length (filter ?P ?K @ [''Ticker_ID'']) = 8" by (simp only: eq)
    then have "length (filter ?P ?K) = 7" by simp
    with eq have "take 7 (map fst cs) = filter ?P ?K" by simp
    with False show ?thesis by simp
  qed
  from nth7_by_label [OF len m this] show ?thesis .
qed

text \<open>
  The dtype of a column whose values are all strings or missing: numeric exactly when
  no row has a string and some row lacks the key.
\<close>

lemma numeric_column_missing:
  assumes "\<forall>r\<in>set rows. dict_get r k = NA \<or> (\<exists>c. dict_get r k = Str c)"
  shows "numeric_column (Some (Records rows)) k \<longleftrightarrow>
         \<not> ((\<exists>r\<in>set rows. \<exists>c. dict_get r k = Str c) \<or> (\<forall>r\<in>set rows. map_of r k \<noteq> None))"
proof -
  have a: "number_or_missing (map_of r k) \<longleftrightarrow> \<not> (\<exists>c. dict_get r k = Str c)"
    and b: "number_or_nan (map_of r k) \<longleftrightarrow> map_of r k = None" if "r \<in> set rows" for r
  proof -
    from assms that have s: "dict_get r k = NA \<or> (\<exists>c. dict_get r k = Str c)" by blast
    show "number_or_missing (map_of r k) \<longleftrightarrow> \<not> (\<exists>c. dict_get r k = Str c)"
    proof (cases "map_of r k")
      case None
      then show ?thesis by (simp add: dict_get_def)
    next
      case (Some v)
      with s show ?thesis by (cases v) (simp_all add: dict_get_def)
    qed
    show "number_or_nan (map_of r k) \<longleftrightarrow> map_of r k = None"
    proof (cases "map_of r k")
      case None
      then show ?thesis by simp
    next
      case (Some v)
      with s show ?thesis by (cases v) (simp_all add: dict_get_def)
    qed
  qed
  show ?thesis
    by (simp add: numeric_column.simps list_all_iff list_ex_iff a b)
qed

text \<open>
  More than eight columns once \<open>Ticker_ID\<close> is set: the relabelling of
  \<^verbatim>\<open>retrieve_historical_price\<close> raises.
\<close>

lemma historical_more_than_eight_columns:
  assumes "net (''https://eodhd.com/api/eod/'' @ (ticker @ ''.'' @ exchange) @ ''?api_token=''
        @ eodhd_api @ ''&from='' @ ''1900-01-01'' @ ''&to='' @ date_to @ ''&fmt=json'')
     = Got st (Some b)"
    and "DataFrame (Some b) = Inr df" and "\<not> df_empty df"
    and "7 < length (columns df)"
    and "8 < length (columns (setitem_scalar df ''Ticker_ID''
                                 (Str (replace_dots (ticker @ ''.'' @ exchange)))))"
  shows "retrieve_historical_price net exchange ticker date_to eodhd_api =
     (Inr None, [(ERROR, ''Updating historical price data -Ticker: '' @ ticker)])"
proof -
  let ?df = "setitem_scalar df ''Ticker_ID'' (Str (replace_dots (ticker @ ''.'' @ exchange)))"
  have "length (take (length (columns ?df)) PRICE_COLUMNS) = 8"
    using assms(5) by (simp add: PRICE_COLUMNS_def)
  then have "set_columns ?df (take (length (columns ?df)) PRICE_COLUMNS) = Inl ValueError"
    using assms(5) by (simp add: set_columns_def columns_def)
  then show ?thesis
    using assms(1-3) by (simp add: retrieve_historical_price_Got)
qed

section \<open>The concrete responses, evaluated\<close>


lemmas frame_ops =
  key_union_def dict_get_def setitem_scalar_def setitem_def columns_def getitem_def
  getitem_list_def drop_columns_def set_columns_def df_empty_def series_add_def
  numeric_column.simps PRICE_COLUMNS_def PRICE_COLUMNS_SORTED_def Let_def

lemma exchanges_net_result:
  "retrieve_exchanges exchanges_net clock0 ''demo'' = (Inr (Some lse_exchanges_table), [])"
  by (simp add: retrieve_exchanges_def exchanges_net_def py_not_def
      make_api_request_Got [where st = 200 and p = "Some (Records [lse_exchange])"]
      exchanges_reshape_Records lse_exchange_def lse_exchanges_table_def clock0_def
      pd_concat_def column_or_na_def frame_ops)

lemma tickers_net_result:
  "retrieve_tickers tickers_net clock0 ''demo'' ''LSE'' = (Inr (Some tickers_table), [])"
  by (simp add: retrieve_tickers_def tickers_net_def py_not_def
      make_api_request_Got [where st = 200 and p = "Some (Records [vod_row, nyse_row])"]
      tickers_reshape_def vod_row_def nyse_row_def tickers_table_def clock0_def
      TICKER_COLUMNS_def us_collapse_def US_EXCHANGES_def frame_ops)

lemma price_net_result:
  "retrieve_historical_price price_net ''US'' ''AAPL'' ''2024-01-02'' ''demo'' =
     (Inr (Some aapl_history), [])"
  by (simp add: retrieve_historical_price_def historical_try_def requests_get_def
      response_json_def price_net_def price_row_def aapl_history_def replace_dots_def frame_ops)

lemma shadow_net_result:
  "retrieve_historical_price shadow_net ''US'' ''AAPL'' ''2024-01-02'' ''demo'' =
     (Inr (Some shifted_history), [])"
  by (simp add: retrieve_historical_price_def historical_try_def requests_get_def
      response_json_def shadow_net_def shadow_row_def price_row_def shifted_history_def
      replace_dots_def frame_ops)

lemma daily_net_result:
  "retrieve_daily_price daily_net ''US'' ''demo'' = (Inr (Some aapl_daily), [])"
  by (simp add: retrieve_daily_price_def daily_net_def py_not_def daily_row_def price_row_def
      make_api_request_Got [where st = 200 and p = "Some (Records [daily_row])"]
      daily_reshape_def aapl_daily_def frame_ops)

lemma shadow_daily_net_result:
  "retrieve_daily_price shadow_daily_net ''US'' ''demo'' = (Inr (Some shifted_daily), [])"
  by (simp add: retrieve_daily_price_def shadow_daily_net_def py_not_def shadow_daily_row_def
      daily_row_def price_row_def
      make_api_request_Got [where st = 200 and p = "Some (Records [shadow_daily_row])"]
      daily_reshape_def shifted_daily_def frame_ops)

lemma numeric_code_net_result:
  "retrieve_daily_price numeric_code_net ''HK'' ''demo'' =
     (Inr None, [(ERROR, ''Failed to process daily prices for HK'')])"
  by (simp add: retrieve_daily_price_def numeric_code_net_def py_not_def numeric_code_row_def
      price_row_def
      make_api_request_Got [where st = 200 and p = "Some (Records [numeric_code_row])"]
      daily_reshape_def frame_ops)

lemma nan_code_net_result:
  "retrieve_daily_price nan_code_net ''US'' ''demo'' =
     (Inr None, [(ERROR, ''Failed to process daily prices for US'')])"
  by (simp add: retrieve_daily_price_def nan_code_net_def py_not_def null_code_row_def
      keyless_row_def price_row_def
      make_api_request_Got [where st = 200 and p = "Some (Records [null_code_row, keyless_row])"]
      daily_reshape_def frame_ops)

section \<open>Exchange retrieval on an empty response\<close>

text \<open>
  C2, as the code has it. \<^verbatim>\<open>retrieve_exchanges\<close> tests \<^verbatim>\<open>not data\<close> before it
  builds any table, so an empty response (an empty array, an empty object, \<^verbatim>\<open>null\<close>
  or any other falsy body) gives the absent result: the two manual rows are not added
  and no two-row table is returned.
\<close>

theorem retrieve_exchanges_empty_absent:
  assumes "net (EXCHANGES @ ''/?api_token='' @ api_key @ ''&fmt=json'') = Got st (Some b)"
    and "falsy b"
  shows "fst (retrieve_exchanges net now api_key) = Inr None"
  using assms by (simp add: retrieve_exchanges_def make_api_request_Got py_not_def)

text \<open>
  The same at a provider that answers with status 200 and an empty array: the result is
  absent and nothing is logged.
\<close>

theorem retrieve_exchanges_empty_absent_witness:
  "empty_net (EXCHANGES @ ''/?api_token='' @ ''demo'' @ ''&fmt=json'') = Got 200 (Some (Records []))
   \<and> falsy (Records []) \<and> fst (retrieve_exchanges empty_net clock0 ''demo'') = Inr None"
  using retrieve_exchanges_empty_absent [of empty_net "''demo''" 200 "Records []" clock0]
  by (simp add: empty_net_def)

text \<open>
  The claim as the specification words it (an empty response still gives the two-row
  table of manual entries) fails at that provider.
\<close>

theorem retrieve_exchanges_empty_counterexample:
  "retrieve_exchanges empty_net clock0 ''demo'' = (Inr None, [])"
  by (simp add: retrieve_exchanges_def empty_net_def py_not_def
      make_api_request_Got [where st = 200 and p = "Some (Records [])"])


section \<open>Historical prices: the empty response\<close>

text \<open>
  C7. When the response of a historical-price request parses to an empty table,
  \<^verbatim>\<open>retrieve_historical_price\<close> returns the absent result without raising, and the
  only message it logs is the debug message: the error handler is not entered.
\<close>

theorem historical_empty_is_debug_absent:
  assumes "net (''https://eodhd.com/api/eod/'' @ (ticker @ ''.'' @ exchange) @ ''?api_token=''
        @ eodhd_api @ ''&from='' @ ''1900-01-01'' @ ''&to='' @ date_to @ ''&fmt=json'')
     = Got st (Some b)"
    and "DataFrame (Some b) = Inr df" and "df_empty df"
  shows "retrieve_historical_price net exchange ticker date_to eodhd_api =
     (Inr None, [(DEBUG, ''No data returned for Ticker: '' @ ticker
                          @ '' on Exchange: '' @ exchange)])"
  using assms by (simp add: retrieve_historical_price_Got)

theorem historical_empty_is_debug_absent_witness:
  "DataFrame (Some (Records [])) = Inr \<lparr>nrows = 0, cols = []\<rparr> \<and>
   df_empty \<lparr>nrows = 0, cols = []\<rparr> \<and>
   retrieve_historical_price empty_net ''US'' ''AAPL'' ''2024-01-02'' ''demo'' =
     (Inr None, [(DEBUG, ''No data returned for Ticker: AAPL on Exchange: US'')])"
  using historical_empty_is_debug_absent [of empty_net "''AAPL''" "''US''" "''demo''"
      "''2024-01-02''" 200 "Records []" "\<lparr>nrows = 0, cols = []\<rparr>"]
  by (simp add: empty_net_def key_union_def df_empty_def)


section \<open>Historical prices: more fields than names\<close>

text \<open>
  C9, as the code has it. \<^verbatim>\<open>retrieve_historical_price\<close> relabels with the first
  \<open>n\<close> of its eight names, \<open>n\<close> being the number of columns once \<open>Ticker_ID\<close> is
  set; a field of the response that is itself named \<open>Ticker_ID\<close> is overwritten and
  adds no column. When the rows of the response carry between them more than 7 fields
  other than \<open>Ticker_ID\<close>, the table has more than 8 columns, the relabelling raises
  (8 names for more than 8 columns), the handler logs the error and the function
  returns the absent result.
\<close>

theorem historical_too_many_fields_absent:
  assumes net: "net (''https://eodhd.com/api/eod/'' @ (ticker @ ''.'' @ exchange)
        @ ''?api_token='' @ eodhd_api @ ''&from='' @ ''1900-01-01'' @ ''&to='' @ date_to
        @ ''&fmt=json'') = Got st (Some (Records rows))"
    and many: "7 < length (filter (\<lambda>k. k \<noteq> ''Ticker_ID'') (key_union rows))"
  shows "retrieve_historical_price net exchange ticker date_to eodhd_api =
     (Inr None, [(ERROR, ''Updating historical price data -Ticker: '' @ ticker)])"
proof -
  let ?K = "key_union rows"
  define df0 where "df0 = \<lparr>nrows = length rows,
     cols = map (\<lambda>k. (k, map (\<lambda>r. dict_get r k) rows)) (key_union rows)\<rparr>"
  have df0: "DataFrame (Some (Records rows)) = Inr df0" by (simp add: df0_def)
  have c0: "columns df0 = ?K" by (simp add: df0_def columns_def comp_def)
  have le: "length (filter (\<lambda>k. k \<noteq> ''Ticker_ID'') ?K) \<le> length ?K"
    by (rule length_filter_le)
  from many have "?K \<noteq> []" by auto
  then have "rows \<noteq> []" by (auto simp: key_union_def)
  with \<open>?K \<noteq> []\<close> have ne: "\<not> df_empty df0" by (simp add: df_empty_def df0_def)
  from many le have n7: "7 < length (columns df0)" unfolding c0 by linarith
  have n8: "8 < length (columns (setitem_scalar df0 ''Ticker_ID''
                                  (Str (replace_dots (ticker @ ''.'' @ exchange)))))"
  proof (cases "''Ticker_ID'' \<in> set ?K")
    case True
    from length_filter_split [OF distinct_key_union True, of "\<lambda>k. True"]
    have "length ?K = Suc (length (filter (\<lambda>k. k \<noteq> ''Ticker_ID'') ?K))" by simp
    with many True show ?thesis by (simp add: columns_setitem_scalar c0)
  next
    case False
    with n7 show ?thesis by (simp add: columns_setitem_scalar c0)
  qed
  from historical_more_than_eight_columns [of net ticker exchange eodhd_api date_to st
      "Records rows" df0, OF net df0 ne n7 n8]
  show ?thesis .
qed

text \<open>A response whose rows carry nine fields, none of them named \<open>Ticker_ID\<close>.\<close>

theorem historical_too_many_fields_absent_witness:
  "wide_net (''https://eodhd.com/api/eod/'' @ (''AAPL'' @ ''.'' @ ''US'') @ ''?api_token=''
        @ ''demo'' @ ''&from='' @ ''1900-01-01'' @ ''&to='' @ ''2024-01-02'' @ ''&fmt=json'')
     = Got 200 (Some (Records [wide_row])) \<and>
   7 < length (filter (\<lambda>k. k \<noteq> ''Ticker_ID'') (key_union [wide_row])) \<and>
   retrieve_historical_price wide_net ''US'' ''AAPL'' ''2024-01-02'' ''demo'' =
     (Inr None, [(ERROR, ''Updating historical price data -Ticker: AAPL'')])"
proof -
  have net: "wide_net (''https://eodhd.com/api/eod/'' @ (''AAPL'' @ ''.'' @ ''US'')
        @ ''?api_token='' @ ''demo'' @ ''&from='' @ ''1900-01-01'' @ ''&to=''
        @ ''2024-01-02'' @ ''&fmt=json'') = Got 200 (Some (Records [wide_row]))"
    by (simp add: wide_net_def)
  have many: "7 < length (filter (\<lambda>k. k \<noteq> ''Ticker_ID'') (key_union [wide_row]))"
    by (simp add: key_union_def wide_row_def price_row_def)
  from historical_too_many_fields_absent [of wide_net "''AAPL''" "''US''" "''demo''"
      "''2024-01-02''" 200 "[wide_row]", OF net many]
  have "retrieve_historical_price wide_net ''US'' ''AAPL'' ''2024-01-02'' ''demo'' =
     (Inr None, [(ERROR, ''Updating historical price data -Ticker: AAPL'')])"
    by simp
  with net many show ?thesis by (intro conjI)
qed

text \<open>
  More than 7 fields as such are not enough. Rows of eight fields, one of them named
  \<open>Ticker_ID\<close>, give a table of exactly eight columns: the relabelling succeeds and a
  table is returned, here with every label one column off.
\<close>

theorem historical_too_many_fields_counterexample:
  "length shadow_row = 8 \<and> distinct (map fst shadow_row) \<and>
   7 < length (key_union [shadow_row]) \<and>
   retrieve_historical_price shadow_net ''US'' ''AAPL'' ''2024-01-02'' ''demo''
     = (Inr (Some shifted_history), [])"
  by (simp add: shadow_net_result) (simp add: key_union_def shadow_row_def price_row_def)

section \<open>A failed request\<close>

text \<open>
  C5 says that every one of the four retrieval functions answers an HTTP or network
  failure, a non-2xx status included, by logging the error and returning the absent
  result. The three functions that go through the request helper do
  (\<open>retrieve_tickers_failed\<close>, \<open>retrieve_exchanges_failed\<close>,
  \<open>retrieve_daily_price_failed\<close>). \<^verbatim>\<open>retrieve_historical_price\<close> makes its own
  request and never calls \<^verbatim>\<open>raise_for_status\<close>: at a provider that answers with
  status 500 and a one-row history as body it logs nothing and returns the table.
\<close>

theorem historical_ignores_status:
  "retrieve_historical_price server_error_net ''US'' ''AAPL'' ''2024-01-02'' ''demo'' =
     (Inr (Some \<lparr>nrows = 1,
                 cols = [(''Ticker_ID'', [Str ''AAPL_US'']), (''Date'', [Str ''2024-01-02'']),
                         (''Open'', [Num 187]), (''High'', [Num 188]), (''Low'', [Num 183]),
                         (''Close'', [Num 185]), (''Adjusted_Close'', [Num 185]),
                         (''Volume'', [Num 82488700])]\<rparr>), [])"
  by (simp add: retrieve_historical_price_def historical_try_def requests_get_def
      response_json_def server_error_net_def price_row_def key_union_def dict_get_def
      df_empty_def setitem_scalar_def setitem_def columns_def replace_dots_def
      set_columns_def PRICE_COLUMNS_def PRICE_COLUMNS_SORTED_def getitem_list_def Let_def)

section \<open>No exception leaves a retrieval function\<close>

text \<open>
  C6. Whatever the network does (no response, any status, a body that is not JSON, an
  empty body, a body of the wrong shape) and whatever the arguments, each of the four
  public retrieval functions returns either the absent marker or a populated table
  (at least one row and one column), and no exception leaves it.
\<close>

theorem retrieval_returns_table_or_absent:
  "table_or_absent (retrieve_exchanges net now api_key) \<and>
   table_or_absent (retrieve_tickers net now api_key exchange) \<and>
   table_or_absent (retrieve_historical_price net exchange ticker date_to api_key) \<and>
   table_or_absent (retrieve_daily_price net exchange api_key)"
  by (intro conjI retrieve_exchanges_table_or_absent retrieve_tickers_table_or_absent
      retrieve_historical_price_table_or_absent retrieve_daily_price_table_or_absent)

section \<open>Exchange retrieval: provider rows and manual rows\<close>

text \<open>
  C1. When the provider answers the exchange-list request with a non-empty array of
  rows and \<^verbatim>\<open>retrieve_exchanges\<close> returns a table, the table has the provider rows
  first and two more rows after them: its row count is the number of provider rows plus
  2; every provider row carries \<open>Source = EoDHD.com\<close> and keeps the provider's
  value in every other provider column; the two appended rows are the \<open>NYSE\<close> and
  \<open>NASDAQ\<close> entries of \<open>US_EXCHANGES\<close>, in that order, each with its code, each
  field of its entry, and \<open>Source = Manual_Input\<close>.
\<close>

theorem exchanges_rows_and_sources:
  assumes net: "net (EXCHANGES @ ''/?api_token='' @ api_key @ ''&fmt=json'')
                  = Got st (Some (Records rows))"
    and res: "retrieve_exchanges net now api_key = (Inr (Some df), lg)"
  shows "nrows df = length rows + 2 \<and>
         (\<forall>i<length rows. cell_at df ''Source'' i = Some (Str ''EoDHD.com'')) \<and>
         (\<forall>i<length rows. \<forall>k\<in>set (key_union rows). k \<noteq> ''Source'' \<and> k \<noteq> ''Date_Updated''
           \<longrightarrow> cell_at df k i = Some (dict_get (rows ! i) k)) \<and>
         map fst US_EXCHANGES = [''NYSE'', ''NASDAQ''] \<and>
         (\<forall>j<length US_EXCHANGES.
           cell_at df ''Code'' (length rows + j) = Some (Str (fst (US_EXCHANGES ! j))) \<and>
           cell_at df ''Source'' (length rows + j) = Some (Str ''Manual_Input'') \<and>
           (\<forall>(k, v)\<in>set (snd (US_EXCHANGES ! j)). cell_at df k (length rows + j) = Some (Str v)))"
proof -
  define df0 where "df0 = \<lparr>nrows = length rows,
     cols = map (\<lambda>k. (k, map (\<lambda>r. dict_get r k) rows)) (key_union rows)\<rparr>"
  define a where "a = setitem_scalar (setitem_scalar df0 ''Source'' (Str ''EoDHD.com''))
     ''Date_Updated'' (Stamp (now 0))"
  define b where "b = \<lparr>nrows = 2,
             cols = [(''Name'', [Str ''New York Stock Exchange'', Str ''NASDAQ'']),
                  (''OperatingMIC'', [Str ''XNYS'', Str ''XNAS'']),
                  (''Country'', [Str ''US'', Str ''US'']),
                  (''Currency'', [Str ''USD'', Str ''USD'']),
                  (''CountryISO2'', [Str ''US'', Str ''US'']),
                  (''CountryISO3'', [Str ''USA'', Str ''USA'']),
                  (''Code'', [Str ''NYSE'', Str ''NASDAQ'']),
                  (''Source'', [Str ''Manual_Input'', Str ''Manual_Input'']),
                  (''Date_Updated'', [Stamp (now 1), Stamp (now 2)])]\<rparr>"
  from retrieve_exchanges_cases [of net now api_key] res net
  have "exchanges_reshape now (Some (Records rows)) = Inr df" by auto
  then have df: "df = pd_concat a b"
    by (simp add: exchanges_reshape_Records a_def b_def df0_def)
  have na: "nrows a = length rows" by (simp add: a_def df0_def)
  have m0: "map_of (cols df0) k =
        (if k \<in> set (key_union rows) then Some (map (\<lambda>r. dict_get r k) rows) else None)" for k
    by (simp add: df0_def map_of_tabulate)
  have ma: "map_of (cols a) k =
        (if k = ''Date_Updated'' then Some (replicate (length rows) (Stamp (now 0)))
         else if k = ''Source'' then Some (replicate (length rows) (Str ''EoDHD.com''))
         else map_of (cols df0) k)" for k
    by (simp add: a_def map_of_setitem_scalar df0_def)
  have la: "length (column_or_na a k) = nrows a" for k
    by (simp add: column_or_na_def ma m0 na)
  have c1: "nrows df = length rows + 2" by (simp add: df pd_concat_def na b_def)
  have c2: "\<forall>i<length rows. cell_at df ''Source'' i = Some (Str ''EoDHD.com'')"
    using cell_at_concat_left [of a "''Source''" "replicate (length rows) (Str ''EoDHD.com'')" _ b]
    by (simp add: df ma)
  have c3: "\<forall>i<length rows. \<forall>k\<in>set (key_union rows). k \<noteq> ''Source'' \<and> k \<noteq> ''Date_Updated''
           \<longrightarrow> cell_at df k i = Some (dict_get (rows ! i) k)"
  proof (intro allI impI ballI)
    fix i k assume i: "i < length rows" and k: "k \<in> set (key_union rows)"
      and ne: "k \<noteq> ''Source'' \<and> k \<noteq> ''Date_Updated''"
    from k ne have "map_of (cols a) k = Some (map (\<lambda>r. dict_get r k) rows)"
      by (simp add: ma m0)
    from cell_at_concat_left [OF this, of i b] i
    show "cell_at df k i = Some (dict_get (rows ! i) k)" by (simp add: df)
  qed
  have c4: "map fst US_EXCHANGES = [''NYSE'', ''NASDAQ'']" by (simp add: US_EXCHANGES_def)
  have right: "cell_at df k (length rows + j) = Some (the (map_of (cols b) k) ! j)"
    if "k \<in> set (columns b)" and "j < 2" for k j
  proof -
    from that(1) obtain ys where ys: "map_of (cols b) k = Some ys"
      by (metis columns_def map_of_eq_None_iff not_Some_eq set_map)
    then have "(k, ys) \<in> set (cols b)" by (rule map_of_SomeD)
    then have "length ys = 2" by (auto simp: b_def)
    with cell_at_concat_right [OF la ys, of j] that(2) ys show ?thesis
      by (simp add: df na)
  qed
  have right0: "cell_at df k (length rows) = Some (the (map_of (cols b) k) ! 0)"
    if "k \<in> set (columns b)" for k
    using right [OF that, of 0] by simp
  have right1: "cell_at df k (Suc (length rows)) = Some (the (map_of (cols b) k) ! 1)"
    if "k \<in> set (columns b)" for k
    using right [OF that, of 1] by simp
  have r0: "cell_at df ''Code'' (length rows) = Some (Str ''NYSE'')"
      "cell_at df ''Source'' (length rows) = Some (Str ''Manual_Input'')"
      "cell_at df ''Name'' (length rows) = Some (Str ''New York Stock Exchange'')"
      "cell_at df ''OperatingMIC'' (length rows) = Some (Str ''XNYS'')"
      "cell_at df ''Country'' (length rows) = Some (Str ''US'')"
      "cell_at df ''Currency'' (length rows) = Some (Str ''USD'')"
      "cell_at df ''CountryISO2'' (length rows) = Some (Str ''US'')"
      "cell_at df ''CountryISO3'' (length rows) = Some (Str ''USA'')"
    by (simp_all add: right0 columns_def b_def)
  have r1: "cell_at df ''Code'' (Suc (length rows)) = Some (Str ''NASDAQ'')"
      "cell_at df ''Source'' (Suc (length rows)) = Some (Str ''Manual_Input'')"
      "cell_at df ''Name'' (Suc (length rows)) = Some (Str ''NASDAQ'')"
      "cell_at df ''OperatingMIC'' (Suc (length rows)) = Some (Str ''XNAS'')"
      "cell_at df ''Country'' (Suc (length rows)) = Some (Str ''US'')"
      "cell_at df ''Currency'' (Suc (length rows)) = Some (Str ''USD'')"
      "cell_at df ''CountryISO2'' (Suc (length rows)) = Some (Str ''US'')"
      "cell_at df ''CountryISO3'' (Suc (length rows)) = Some (Str ''USA'')"
    by (simp_all add: right1 columns_def b_def)
  have c5: "\<forall>j<length US_EXCHANGES.
           cell_at df ''Code'' (length rows + j) = Some (Str (fst (US_EXCHANGES ! j))) \<and>
           cell_at df ''Source'' (length rows + j) = Some (Str ''Manual_Input'') \<and>
           (\<forall>(k, v)\<in>set (snd (US_EXCHANGES ! j)). cell_at df k (length rows + j) = Some (Str v))"
  proof (intro allI impI)
    fix j assume "j < length US_EXCHANGES"
    then have "j = 0 \<or> j = 1" by (auto simp: US_EXCHANGES_def)
    then show "cell_at df ''Code'' (length rows + j) = Some (Str (fst (US_EXCHANGES ! j))) \<and>
           cell_at df ''Source'' (length rows + j) = Some (Str ''Manual_Input'') \<and>
           (\<forall>(k, v)\<in>set (snd (US_EXCHANGES ! j)). cell_at df k (length rows + j) = Some (Str v))"
    proof
      assume "j = 0"
      with r0 show ?thesis by (simp add: US_EXCHANGES_def)
    next
      assume "j = 1"
      with r1 show ?thesis by (simp add: US_EXCHANGES_def)
    qed
  qed
  show ?thesis
    by (intro conjI) (rule c1 c2 c3 c4 c5)+
qed

text \<open>
  The same at a provider whose exchange list has the single entry \<open>LSE\<close>: three
  rows, the provider's first, then \<open>NYSE\<close> and \<open>NASDAQ\<close>.
\<close>

theorem exchanges_rows_and_sources_witness:
  "exchanges_net (EXCHANGES @ ''/?api_token='' @ ''demo'' @ ''&fmt=json'')
     = Got 200 (Some (Records [lse_exchange])) \<and>
   retrieve_exchanges exchanges_net clock0 ''demo'' = (Inr (Some lse_exchanges_table), []) \<and>
   nrows lse_exchanges_table = length [lse_exchange] + 2 \<and>
   cell_at lse_exchanges_table ''Source'' 0 = Some (Str ''EoDHD.com'') \<and>
   cell_at lse_exchanges_table ''Code'' 0 = Some (dict_get lse_exchange ''Code'') \<and>
   cell_at lse_exchanges_table ''Code'' 1 = Some (Str ''NYSE'') \<and>
   cell_at lse_exchanges_table ''Source'' 1 = Some (Str ''Manual_Input'') \<and>
   cell_at lse_exchanges_table ''OperatingMIC'' 1 = Some (Str ''XNYS'') \<and>
   cell_at lse_exchanges_table ''Code'' 2 = Some (Str ''NASDAQ'') \<and>
   cell_at lse_exchanges_table ''Source'' 2 = Some (Str ''Manual_Input'') \<and>
   cell_at lse_exchanges_table ''OperatingMIC'' 2 = Some (Str ''XNAS'')"
proof -
  have net: "exchanges_net (EXCHANGES @ ''/?api_token='' @ ''demo'' @ ''&fmt=json'')
     = Got 200 (Some (Records [lse_exchange]))"
    by (simp add: exchanges_net_def)
  note t = exchanges_rows_and_sources [of exchanges_net "''demo''" 200 "[lse_exchange]"
      clock0 lse_exchanges_table "[]", OF net exchanges_net_result]
  have l: "0 < length US_EXCHANGES" "1 < length US_EXCHANGES"
    by (simp_all add: US_EXCHANGES_def)
  have k: "''Code'' \<in> set (key_union [lse_exchange])"
    by (simp add: key_union_def lse_exchange_def)
  from t have n: "nrows lse_exchanges_table = length [lse_exchange] + 2" by (elim conjE)
  from t have s: "\<forall>i<length [lse_exchange]. cell_at lse_exchanges_table ''Source'' i
      = Some (Str ''EoDHD.com'')" by (elim conjE)
  from t have p: "\<forall>i<length [lse_exchange]. \<forall>k\<in>set (key_union [lse_exchange]).
      k \<noteq> ''Source'' \<and> k \<noteq> ''Date_Updated'' \<longrightarrow>
      cell_at lse_exchanges_table k i = Some (dict_get ([lse_exchange] ! i) k)" by (elim conjE)
  note m = t [THEN conjunct2, THEN conjunct2, THEN conjunct2, THEN conjunct2, rule_format]
  from s have s0: "cell_at lse_exchanges_table ''Source'' 0 = Some (Str ''EoDHD.com'')"
    by simp
  from p k have p0: "cell_at lse_exchanges_table ''Code'' 0 = Some (dict_get lse_exchange ''Code'')"
    by force
  from m [OF l(1)] have m0: "cell_at lse_exchanges_table ''Code'' 1 = Some (Str ''NYSE'')"
    "cell_at lse_exchanges_table ''Source'' 1 = Some (Str ''Manual_Input'')"
    "cell_at lse_exchanges_table ''OperatingMIC'' 1 = Some (Str ''XNYS'')"
    by (simp_all add: US_EXCHANGES_def)
  from m [OF l(2)] have m1: "cell_at lse_exchanges_table ''Code'' 2 = Some (Str ''NASDAQ'')"
    "cell_at lse_exchanges_table ''Source'' 2 = Some (Str ''Manual_Input'')"
    "cell_at lse_exchanges_table ''OperatingMIC'' 2 = Some (Str ''XNAS'')"
    by (simp_all add: US_EXCHANGES_def numeral_2_eq_2)
  show ?thesis
    by (intro conjI) (rule net exchanges_net_result n s0 p0 m0 m1)+
qed

section \<open>Ticker retrieval: the synthesized identifier and the US collapse\<close>

text \<open>
  C3, as the code has it. When the provider answers a ticker-list request with an
  array of rows and \<^verbatim>\<open>retrieve_tickers\<close> returns a table, the table has one row per
  provider row and, in every row: when the row's \<open>Code\<close> is a string \<open>c\<close>, the
  \<open>Ticker_ID\<close> is \<open>c\<close> followed by an underscore and the exchange argument; when
  the row's \<open>Code\<close> is missing (\<^verbatim>\<open>null\<close>, or absent from the row), the
  \<open>Ticker_ID\<close> is missing too; a table is returned for no other \<open>Code\<close>;
  \<open>EoDHD_Exchange\<close> is \<open>US\<close> when the row's \<open>Exchange\<close> is \<open>NYSE\<close> or
  \<open>NASDAQ\<close> and the row's \<open>Exchange\<close> unchanged otherwise.
\<close>

theorem tickers_ticker_id_and_exchange:
  assumes net: "net (TICKERS @ ''/'' @ exchange @ ''?api_token='' @ api_key @ ''&fmt=json'')
                  = Got st (Some (Records rows))"
    and res: "retrieve_tickers net now api_key exchange = (Inr (Some df), lg)"
  shows "nrows df = length rows \<and>
         (\<forall>i<length rows.
            (\<forall>c. dict_get (rows ! i) ''Code'' = Str c \<longrightarrow>
                 cell_at df ''Ticker_ID'' i = Some (Str (c @ ''_'' @ exchange))) \<and>
            (dict_get (rows ! i) ''Code'' = NA \<longrightarrow> cell_at df ''Ticker_ID'' i = Some NA) \<and>
            (dict_get (rows ! i) ''Code'' = NA \<or> (\<exists>c. dict_get (rows ! i) ''Code'' = Str c)) \<and>
            cell_at df ''EoDHD_Exchange'' i =
              Some (if dict_get (rows ! i) ''Exchange'' = Str ''NYSE'' \<or>
                       dict_get (rows ! i) ''Exchange'' = Str ''NASDAQ''
                    then Str ''US'' else dict_get (rows ! i) ''Exchange''))"
proof -
  from retrieve_tickers_cases [of net now api_key exchange] res net
  have r: "tickers_reshape now exchange (Some (Records rows)) = Inr df" by auto
  note f = tickers_reshape_Inr [OF r]
  from f(3) obtain tid where
    tid: "add_cells (map (\<lambda>r. dict_get r ''Code'') rows) (''_'' @ exchange) = Inr tid"
    and mt: "map_of (cols df) ''Ticker_ID'' = Some tid" by blast
  from add_cells_Inr [OF tid] have lt: "length tid = length rows"
    and at: "\<forall>i<length rows. add_str (dict_get (rows ! i) ''Code'') (''_'' @ exchange) = Inr (tid ! i)"
    by auto
  have "(\<forall>c. dict_get (rows ! i) ''Code'' = Str c \<longrightarrow>
                 cell_at df ''Ticker_ID'' i = Some (Str (c @ ''_'' @ exchange))) \<and>
            (dict_get (rows ! i) ''Code'' = NA \<longrightarrow> cell_at df ''Ticker_ID'' i = Some NA) \<and>
            (dict_get (rows ! i) ''Code'' = NA \<or> (\<exists>c. dict_get (rows ! i) ''Code'' = Str c)) \<and>
            cell_at df ''EoDHD_Exchange'' i =
              Some (if dict_get (rows ! i) ''Exchange'' = Str ''NYSE'' \<or>
                       dict_get (rows ! i) ''Exchange'' = Str ''NASDAQ''
                    then Str ''US'' else dict_get (rows ! i) ''Exchange'')"
    if i: "i < length rows" for i
  proof -
    from at i have a: "add_str (dict_get (rows ! i) ''Code'') (''_'' @ exchange) = Inr (tid ! i)"
      by simp
    have c: "cell_at df ''Ticker_ID'' i = Some (tid ! i)"
      using mt lt i by (simp add: cell_at_def)
    have e: "cell_at df ''EoDHD_Exchange'' i = Some (us_collapse (dict_get (rows ! i) ''Exchange''))"
      using f(4) i by (simp add: cell_at_def)
    have u: "us_collapse x = (if x = Str ''NYSE'' \<or> x = Str ''NASDAQ'' then Str ''US'' else x)" for x
      by (auto simp: us_collapse_def US_EXCHANGES_def)
    from a c e show ?thesis
      by (cases "dict_get (rows ! i) ''Code''") (simp_all add: u)
  qed
  with f(2) show ?thesis by blast
qed

text \<open>
  The same on the specification's scenario (exchange \<open>LSE\<close>, a row with
  \<open>Code = VOD\<close> and \<open>Exchange = LSE\<close>) followed by a row without a \<open>Code\<close>
  whose \<open>Exchange\<close> is \<open>NYSE\<close>.
\<close>

theorem tickers_ticker_id_and_exchange_witness:
  "tickers_net (TICKERS @ ''/'' @ ''LSE'' @ ''?api_token='' @ ''demo'' @ ''&fmt=json'')
     = Got 200 (Some (Records [vod_row, nyse_row])) \<and>
   retrieve_tickers tickers_net clock0 ''demo'' ''LSE'' = (Inr (Some tickers_table), []) \<and>
   dict_get vod_row ''Code'' = Str ''VOD'' \<and>
   cell_at tickers_table ''Ticker_ID'' 0 = Some (Str ''VOD_LSE'') \<and>
   cell_at tickers_table ''EoDHD_Exchange'' 0 = Some (Str ''LSE'') \<and>
   dict_get nyse_row ''Code'' = NA \<and>
   cell_at tickers_table ''Ticker_ID'' 1 = Some NA \<and>
   cell_at tickers_table ''EoDHD_Exchange'' 1 = Some (Str ''US'')"
proof -
  have net: "tickers_net (TICKERS @ ''/'' @ ''LSE'' @ ''?api_token='' @ ''demo'' @ ''&fmt=json'')
     = Got 200 (Some (Records [vod_row, nyse_row]))"
    by (simp add: tickers_net_def)
  note t = tickers_ticker_id_and_exchange [of tickers_net "''LSE''" "''demo''" 200
      "[vod_row, nyse_row]" clock0 tickers_table "[]", OF net tickers_net_result,
      THEN conjunct2, rule_format]
  have v: "dict_get vod_row ''Code'' = Str ''VOD''" "dict_get vod_row ''Exchange'' = Str ''LSE''"
    by (simp_all add: dict_get_def vod_row_def)
  have n: "dict_get nyse_row ''Code'' = NA" "dict_get nyse_row ''Exchange'' = Str ''NYSE''"
    by (simp_all add: dict_get_def nyse_row_def)
  have t0: "cell_at tickers_table ''Ticker_ID'' 0 = Some (Str ''VOD_LSE'')"
    "cell_at tickers_table ''EoDHD_Exchange'' 0 = Some (Str ''LSE'')"
    using t [of 0] v by simp_all
  have t1: "cell_at tickers_table ''Ticker_ID'' 1 = Some NA"
    "cell_at tickers_table ''EoDHD_Exchange'' 1 = Some (Str ''US'')"
    using t [of 1] n by simp_all
  show ?thesis
    by (intro conjI) (rule net tickers_net_result v n t0 t1)+
qed

text \<open>
  The claim as the specification words it, for every row, fails on the second row of
  that response: its \<open>Code\<close> is \<^verbatim>\<open>null\<close>, the response reshapes successfully, and
  its \<open>Ticker_ID\<close> is the missing value, not a string ending in \<open>_LSE\<close>.
\<close>

theorem tickers_ticker_id_counterexample:
  "retrieve_tickers tickers_net clock0 ''demo'' ''LSE'' = (Inr (Some tickers_table), []) \<and>
   dict_get nyse_row ''Code'' = NA \<and>
   cell_at tickers_table ''Code'' 1 = Some NA \<and>
   cell_at tickers_table ''Ticker_ID'' 1 = Some NA"
  by (simp add: tickers_net_result)
     (simp add: cell_at_def tickers_table_def dict_get_def nyse_row_def)

section \<open>Historical prices: the synthesized identifier\<close>

text \<open>
  C4, as the code has it. \<^verbatim>\<open>retrieve_historical_price\<close> sets the column
  \<open>Ticker_ID\<close> to the provider ticker identifier with every period replaced by an
  underscore, and then relabels the columns by position. When the provider answers with
  an array of rows, the function returns a table, and \<open>Ticker_ID\<close> is not the name
  of one of the first seven fields of the response, every row of the returned table
  carries that identifier in its \<open>Ticker_ID\<close> column, and the table has one row per
  provider row.
\<close>

theorem historical_ticker_id:
  assumes net: "net (''https://eodhd.com/api/eod/'' @ (ticker @ ''.'' @ exchange)
        @ ''?api_token='' @ eodhd_api @ ''&from='' @ ''1900-01-01'' @ ''&to='' @ date_to
        @ ''&fmt=json'') = Got st (Some (Records rows))"
    and res: "retrieve_historical_price net exchange ticker date_to eodhd_api
                = (Inr (Some df), lg)"
    and pos: "''Ticker_ID'' \<notin> set (take 7 (key_union rows))"
  shows "nrows df = length rows \<and>
         (\<forall>i<length rows.
            cell_at df ''Ticker_ID'' i = Some (Str (replace_dots (ticker @ ''.'' @ exchange))))"
proof -
  define df0 where "df0 = \<lparr>nrows = length rows,
     cols = map (\<lambda>k. (k, map (\<lambda>r. dict_get r k) rows)) (key_union rows)\<rparr>"
  define v where "v = Str (replace_dots (ticker @ ''.'' @ exchange))"
  define d where "d = setitem_scalar df0 ''Ticker_ID'' v"
  have df0: "DataFrame (Some (Records rows)) = Inr df0" by (simp add: df0_def)
  have c0: "columns df0 = key_union rows" by (simp add: df0_def columns_def comp_def)
  from res retrieve_historical_price_Got [of net ticker exchange eodhd_api date_to st
      "Records rows" df0, OF net df0]
  have step: "seq (set_columns d (take (length (columns d)) PRICE_COLUMNS))
                (\<lambda>price_data. getitem_list price_data PRICE_COLUMNS_SORTED) = Inr df"
    by (auto simp: d_def v_def split: if_splits sum.splits)
  from historical_relabel_eight [OF step] have len: "length (cols d) = 8" .
  then have "take (length (columns d)) PRICE_COLUMNS = PRICE_COLUMNS"
    by (simp add: columns_def PRICE_COLUMNS_def)
  with step relabel_sorted(1,2) [OF len]
  have df: "df = d\<lparr>cols := [(''Ticker_ID'', snd (cols d ! 7)), (''Date'', snd (cols d ! 0)),
                            (''Open'', snd (cols d ! 1)), (''High'', snd (cols d ! 2)),
                            (''Low'', snd (cols d ! 3)), (''Close'', snd (cols d ! 4)),
                            (''Adjusted_Close'', snd (cols d ! 5)),
                            (''Volume'', snd (cols d ! 6))]\<rparr>"
    by simp
  have m: "map_of (cols d) ''Ticker_ID'' = Some (replicate (length rows) v)"
    by (simp add: d_def map_of_setitem_scalar df0_def)
  from len pos have "''Ticker_ID'' \<notin> set (take 7 (map fst (cols d)))"
    unfolding d_def setitem_scalar_def by (intro take7_setitem) (simp_all add: c0)
  from nth7_by_label [OF len m this]
  have "cols d ! 7 = (''Ticker_ID'', replicate (length rows) v)" .
  then show ?thesis
    by (simp add: df cell_at_def d_def df0_def v_def)
qed

text \<open>The same on a one-row history for \<open>AAPL\<close> on \<open>US\<close>.\<close>

theorem historical_ticker_id_witness:
  "price_net (''https://eodhd.com/api/eod/'' @ (''AAPL'' @ ''.'' @ ''US'') @ ''?api_token=''
        @ ''demo'' @ ''&from='' @ ''1900-01-01'' @ ''&to='' @ ''2024-01-02'' @ ''&fmt=json'')
     = Got 200 (Some (Records [price_row])) \<and>
   retrieve_historical_price price_net ''US'' ''AAPL'' ''2024-01-02'' ''demo''
     = (Inr (Some aapl_history), []) \<and>
   ''Ticker_ID'' \<notin> set (take 7 (key_union [price_row])) \<and>
   nrows aapl_history = 1 \<and>
   cell_at aapl_history ''Ticker_ID'' 0 = Some (Str ''AAPL_US'')"
proof -
  have net: "price_net (''https://eodhd.com/api/eod/'' @ (''AAPL'' @ ''.'' @ ''US'')
        @ ''?api_token='' @ ''demo'' @ ''&from='' @ ''1900-01-01'' @ ''&to=''
        @ ''2024-01-02'' @ ''&fmt=json'') = Got 200 (Some (Records [price_row]))"
    by (simp add: price_net_def)
  have pos: "''Ticker_ID'' \<notin> set (take 7 (key_union [price_row]))"
    by (simp add: key_union_def price_row_def)
  note t = historical_ticker_id [of price_net "''AAPL''" "''US''" "''demo''" "''2024-01-02''"
      200 "[price_row]" aapl_history "[]", OF net price_net_result pos]
  from t have a: "nrows aapl_history = 1" by simp
  from t have b: "cell_at aapl_history ''Ticker_ID'' 0 = Some (Str ''AAPL_US'')"
    by (simp add: replace_dots_def)
  show ?thesis
    by (intro conjI) (rule net price_net_result pos a b)+
qed

text \<open>
  Without the condition on the field names the claim fails. A response whose rows have
  eight fields, the first of them named \<open>Ticker_ID\<close>, reshapes successfully: the
  identifier overwrites the first column, the positional relabelling calls that column
  \<open>Date\<close>, and the column it calls \<open>Ticker_ID\<close> is the provider's eighth field.
\<close>

theorem historical_ticker_id_counterexample:
  "retrieve_historical_price shadow_net ''US'' ''AAPL'' ''2024-01-02'' ''demo''
     = (Inr (Some shifted_history), []) \<and>
   cell_at shifted_history ''Ticker_ID'' 0 = Some (Num 82488700) \<and>
   cell_at shifted_history ''Ticker_ID'' 0 \<noteq> Some (Str (replace_dots (''AAPL'' @ ''.'' @ ''US'')))"
  by (simp add: shadow_net_result) (simp add: cell_at_def shifted_history_def)

section \<open>Daily prices: the returned layout\<close>

text \<open>
  C8, as the code has it. \<^verbatim>\<open>retrieve_daily_price\<close> sets \<open>Ticker_ID\<close> by name,
  drops \<open>code\<close> and \<open>exchange_short_name\<close>, and then relabels the remaining columns
  by position. When the provider answers with an array of rows and the function returns
  a table, the columns of the table are exactly \<open>Date, Open, High, Low, Close,
  Adjusted_Close, Volume, Ticker_ID\<close> in that order (so there is no \<open>code\<close> and no
  \<open>exchange_short_name\<close> column), the table is the projection of a table in the
  sorted layout, and it has one row per provider row. When moreover \<open>Ticker_ID\<close>
  is not the name of one of the first seven fields of the response other than
  \<open>code\<close> and \<open>exchange_short_name\<close>, the \<open>Ticker_ID\<close> of every row is the
  provider's \<open>code\<close> followed by an underscore and the exchange argument (and is
  missing in a row whose \<open>code\<close> is missing; no other \<open>code\<close> value reshapes
  successfully).
\<close>

theorem daily_ticker_id_and_layout:
  assumes net: "net (DAILY @ ''/'' @ exchange @ ''?api_token='' @ api_key @ ''&fmt=json'')
                  = Got st (Some (Records rows))"
    and res: "retrieve_daily_price net exchange api_key = (Inr (Some df), lg)"
  shows "columns df = PRICE_COLUMNS \<and>
         ''code'' \<notin> set (columns df) \<and> ''exchange_short_name'' \<notin> set (columns df) \<and>
         nrows df = length rows \<and>
         (\<exists>mid. columns mid = PRICE_COLUMNS_SORTED \<and> getitem_list mid PRICE_COLUMNS = Inr df) \<and>
         (''Ticker_ID'' \<notin> set (take 7 (filter (\<lambda>k. k \<noteq> ''code'' \<and> k \<noteq> ''exchange_short_name'')
                                         (key_union rows))) \<longrightarrow>
          (\<forall>i<length rows.
             (\<forall>c. dict_get (rows ! i) ''code'' = Str c \<longrightarrow>
                  cell_at df ''Ticker_ID'' i = Some (Str (c @ ''_'' @ exchange))) \<and>
             (dict_get (rows ! i) ''code'' = NA \<longrightarrow> cell_at df ''Ticker_ID'' i = Some NA) \<and>
             (dict_get (rows ! i) ''code'' = NA \<or> (\<exists>c. dict_get (rows ! i) ''code'' = Str c))))"
proof -
  from retrieve_daily_price_cases [of net exchange api_key] res net
  have r: "daily_reshape exchange (Some (Records rows)) = Inr df" by auto
  from daily_reshape_Inr [OF r] obtain tid cs where
    tid: "add_cells (map (\<lambda>r. dict_get r ''code'') rows) (''_'' @ exchange) = Inr tid"
    and cs: "cs = filter (\<lambda>(k, xs). k \<notin> set [''code'', ''exchange_short_name''])
            (cols (setitem \<lparr>nrows = length rows,
                 cols = map (\<lambda>k. (k, map (\<lambda>r. dict_get r k) rows)) (key_union rows)\<rparr>
               ''Ticker_ID'' tid))"
    and len: "length cs = 8"
    and df: "df = \<lparr>nrows = length rows, cols = zip PRICE_COLUMNS (map snd cs)\<rparr>"
    by blast
  from add_cells_Inr [OF tid] have lt: "length tid = length rows"
    and at: "\<forall>i<length rows. add_str (dict_get (rows ! i) ''code'') (''_'' @ exchange) = Inr (tid ! i)"
    by auto
  have c1: "columns df = PRICE_COLUMNS"
    using len by (simp add: df columns_def PRICE_COLUMNS_def)
  then have c2: "''code'' \<notin> set (columns df)" and c3: "''exchange_short_name'' \<notin> set (columns df)"
    by (simp_all add: PRICE_COLUMNS_def)
  have c4: "nrows df = length rows" by (simp add: df)
  define d where "d = \<lparr>nrows = length rows, cols = cs\<rparr>"
  define mid where "mid = d\<lparr>cols := [(''Ticker_ID'', snd (cols d ! 7)), (''Date'', snd (cols d ! 0)),
                            (''Open'', snd (cols d ! 1)), (''High'', snd (cols d ! 2)),
                            (''Low'', snd (cols d ! 3)), (''Close'', snd (cols d ! 4)),
                            (''Adjusted_Close'', snd (cols d ! 5)),
                            (''Volume'', snd (cols d ! 6))]\<rparr>"
  have ld: "length (cols d) = 8" using len by (simp add: d_def)
  from relabel_sorted(3) [OF ld] have "getitem_list mid PRICE_COLUMNS = Inr df"
    by (simp add: mid_def df d_def)
  moreover have "columns mid = PRICE_COLUMNS_SORTED"
    by (simp add: mid_def columns_def PRICE_COLUMNS_SORTED_def)
  ultimately have c5: "\<exists>mid. columns mid = PRICE_COLUMNS_SORTED \<and> getitem_list mid PRICE_COLUMNS = Inr df"
    by blast
  have c6: "''Ticker_ID'' \<notin> set (take 7 (filter (\<lambda>k. k \<noteq> ''code'' \<and> k \<noteq> ''exchange_short_name'')
                                         (key_union rows))) \<longrightarrow>
          (\<forall>i<length rows.
             (\<forall>c. dict_get (rows ! i) ''code'' = Str c \<longrightarrow>
                  cell_at df ''Ticker_ID'' i = Some (Str (c @ ''_'' @ exchange))) \<and>
             (dict_get (rows ! i) ''code'' = NA \<longrightarrow> cell_at df ''Ticker_ID'' i = Some NA) \<and>
             (dict_get (rows ! i) ''code'' = NA \<or> (\<exists>c. dict_get (rows ! i) ''code'' = Str c)))"
  proof (intro impI allI)
    fix i
    assume pos: "''Ticker_ID'' \<notin> set (take 7 (filter (\<lambda>k. k \<noteq> ''code'' \<and> k \<noteq> ''exchange_short_name'')
                                         (key_union rows)))"
      and i: "i < length rows"
    from daily_ticker_id_last [OF cs len pos] have "cs ! 7 = (''Ticker_ID'', tid)" .
    with zip_price_columns_ticker_id [OF len]
    have mt: "map_of (cols df) ''Ticker_ID'' = Some tid" by (simp add: df)
    from at i have a: "add_str (dict_get (rows ! i) ''code'') (''_'' @ exchange) = Inr (tid ! i)"
      by simp
    have c: "cell_at df ''Ticker_ID'' i = Some (tid ! i)"
      using mt lt i by (simp add: cell_at_def)
    from a c show "(\<forall>c. dict_get (rows ! i) ''code'' = Str c \<longrightarrow>
                 cell_at df ''Ticker_ID'' i = Some (Str (c @ ''_'' @ exchange))) \<and>
            (dict_get (rows ! i) ''code'' = NA \<longrightarrow> cell_at df ''Ticker_ID'' i = Some NA) \<and>
            (dict_get (rows ! i) ''code'' = NA \<or> (\<exists>c. dict_get (rows ! i) ''code'' = Str c))"
      by (cases "dict_get (rows ! i) ''code''") simp_all
  qed
  show ?thesis
    by (intro conjI) (rule c1 c2 c3 c4 c5 c6)+
qed

text \<open>The same on a one-row bulk response for \<open>AAPL\<close> on \<open>US\<close>.\<close>

theorem daily_ticker_id_and_layout_witness:
  "daily_net (DAILY @ ''/'' @ ''US'' @ ''?api_token='' @ ''demo'' @ ''&fmt=json'')
     = Got 200 (Some (Records [daily_row])) \<and>
   retrieve_daily_price daily_net ''US'' ''demo'' = (Inr (Some aapl_daily), []) \<and>
   ''Ticker_ID'' \<notin> set (take 7 (filter (\<lambda>k. k \<noteq> ''code'' \<and> k \<noteq> ''exchange_short_name'')
                                   (key_union [daily_row]))) \<and>
   dict_get daily_row ''code'' = Str ''AAPL'' \<and>
   columns aapl_daily = PRICE_COLUMNS \<and>
   nrows aapl_daily = 1 \<and>
   cell_at aapl_daily ''Ticker_ID'' 0 = Some (Str ''AAPL_US'')"
proof -
  have net: "daily_net (DAILY @ ''/'' @ ''US'' @ ''?api_token='' @ ''demo'' @ ''&fmt=json'')
     = Got 200 (Some (Records [daily_row]))"
    by (simp add: daily_net_def)
  have pos: "''Ticker_ID'' \<notin> set (take 7 (filter (\<lambda>k. k \<noteq> ''code'' \<and> k \<noteq> ''exchange_short_name'')
                                   (key_union [daily_row])))"
    by (simp add: key_union_def daily_row_def price_row_def)
  have code: "dict_get daily_row ''code'' = Str ''AAPL''"
    by (simp add: dict_get_def daily_row_def)
  note t = daily_ticker_id_and_layout [of daily_net "''US''" "''demo''" 200 "[daily_row]"
      aapl_daily "[]", OF net daily_net_result]
  from t have a: "columns aapl_daily = PRICE_COLUMNS" by (elim conjE)
  from t have b: "nrows aapl_daily = 1" by simp
  from t pos code have c: "cell_at aapl_daily ''Ticker_ID'' 0 = Some (Str ''AAPL_US'')" by simp
  show ?thesis
    by (intro conjI) (rule net daily_net_result pos code a b c)+
qed

text \<open>
  Without the condition on the field names the claim fails. Rows of ten fields, the
  first of them named \<open>Ticker_ID\<close>, reshape successfully, and the column that the
  returned table calls \<open>Ticker_ID\<close> holds the provider's last field.
\<close>

theorem daily_ticker_id_and_layout_counterexample:
  "retrieve_daily_price shadow_daily_net ''US'' ''demo'' = (Inr (Some shifted_daily), []) \<and>
   dict_get shadow_daily_row ''code'' = Str ''AAPL'' \<and>
   cell_at shifted_daily ''Ticker_ID'' 0 = Some (Num 82488700) \<and>
   cell_at shifted_daily ''Ticker_ID'' 0 \<noteq> Some (Str (''AAPL'' @ ''_'' @ ''US''))"
  by (simp add: shadow_daily_net_result)
     (simp add: cell_at_def shifted_daily_def dict_get_def shadow_daily_row_def daily_row_def)

section \<open>Daily prices: when a table is returned\<close>

text \<open>
  C10, as the code has it. Let the provider answer a daily-price request with a
  non-empty array of rows and a status that is not 4xx or 5xx. A table is returned
  exactly when
  \<^item> the rows have a \<open>code\<close> field and an \<open>exchange_short_name\<close> field,
  \<^item> every \<open>code\<close> is a string or missing,
  \<^item> some \<open>code\<close> is a string or else every row carries the key \<open>code\<close> (a
    column in which no row has a value and some row lacks the key is a \<^verbatim>\<open>float64\<close>
    column, and adding the suffix to it raises), and
  \<^item> the rows have between them exactly seven field names besides \<open>code\<close>,
    \<open>exchange_short_name\<close> and \<open>Ticker_ID\<close> (exactly eight columns are then left
    for the eight names).
  In every other case the reshaping raises, the handler logs the error, and the absent
  result is returned.
\<close>

theorem daily_table_iff_shape:
  assumes net: "net (DAILY @ ''/'' @ exchange @ ''?api_token='' @ api_key @ ''&fmt=json'')
                  = Got st (Some (Records rows))"
    and ok: "\<not> (400 \<le> st \<and> st < 600)"
    and ne: "rows \<noteq> []"
  shows "if ''code'' \<in> set (key_union rows) \<and> ''exchange_short_name'' \<in> set (key_union rows) \<and>
            (\<forall>r\<in>set rows. dict_get r ''code'' = NA \<or> (\<exists>c. dict_get r ''code'' = Str c)) \<and>
            ((\<exists>r\<in>set rows. \<exists>c. dict_get r ''code'' = Str c) \<or>
             (\<forall>r\<in>set rows. map_of r ''code'' \<noteq> None)) \<and>
            length (filter (\<lambda>k. k \<notin> {''code'', ''exchange_short_name'', ''Ticker_ID''})
                      (key_union rows)) = 7
         then \<exists>df. retrieve_daily_price net exchange api_key = (Inr (Some df), [])
         else retrieve_daily_price net exchange api_key =
                (Inr None, [(ERROR, ''Failed to process daily prices for '' @ exchange)])"
proof -
  let ?codes = "map (\<lambda>r. dict_get r ''code'') rows"
  let ?C = "\<forall>r\<in>set rows. dict_get r ''code'' = NA \<or> (\<exists>c. dict_get r ''code'' = Str c)"
  let ?D = "(\<exists>r\<in>set rows. \<exists>c. dict_get r ''code'' = Str c) \<or>
            (\<forall>r\<in>set rows. map_of r ''code'' \<noteq> None)"
  let ?E = "length (filter (\<lambda>k. k \<notin> {''code'', ''exchange_short_name'', ''Ticker_ID''})
                      (key_union rows)) = 7"
  let ?cond = "''code'' \<in> set (key_union rows) \<and> ''exchange_short_name'' \<in> set (key_union rows) \<and>
               ?C \<and> ?D \<and> ?E"
  let ?num = "numeric_column (Some (Records rows)) ''code''"
  let ?R = "daily_reshape exchange (Some (Records rows))"
  have res: "retrieve_daily_price net exchange api_key =
      (case ?R of
         Inr df \<Rightarrow> (Inr (Some df), [])
       | Inl e \<Rightarrow> (Inr None, [(ERROR, ''Failed to process daily prices for '' @ exchange)]))"
    using net ok ne
    by (simp add: retrieve_daily_price_def make_api_request_Got py_not_def split: sum.splits)
  have sa: "(\<exists>tid. add_cells ?codes (''_'' @ exchange) = Inr tid) \<longleftrightarrow> ?C"
    by (simp add: add_cells_Inr_iff)
  have nm: "?C \<Longrightarrow> ?num \<longleftrightarrow> \<not> ?D"
    by (rule numeric_column_missing)
  note len = daily_columns_before_relabel [OF distinct_key_union, of "length rows"
      "\<lambda>k. map (\<lambda>r. dict_get r k) rows" rows]
  have table: "\<exists>df. ?R = Inr df" if cond: ?cond
  proof -
    from cond have code: "''code'' \<in> set (key_union rows)"
      and esn: "''exchange_short_name'' \<in> set (key_union rows)"
      and C: ?C and D: ?D and E: ?E by blast+
    from nm [OF C] D have num: "\<not> ?num" by blast
    from sa C obtain tid where tid: "add_cells ?codes (''_'' @ exchange) = Inr tid" by blast
    from len [of tid] E have
      "length (filter (\<lambda>(k, xs). k \<notin> set [''code'', ''exchange_short_name''])
           (cols (setitem \<lparr>nrows = length rows,
                   cols = map (\<lambda>k. (k, map (\<lambda>r. dict_get r k) rows)) (key_union rows)\<rparr>
                 ''Ticker_ID'' tid))) = 8"
      by simp
    with code esn num tid show ?thesis
      by (simp add: daily_reshape_Records Let_def)
  qed
  have absent: "?cond" if R: "?R = Inr df" for df
  proof -
    from daily_reshape_Inr [OF R] obtain tid cs where
      tid: "add_cells ?codes (''_'' @ exchange) = Inr tid"
      and cs: "cs = filter (\<lambda>(k, xs). k \<notin> set [''code'', ''exchange_short_name''])
            (cols (setitem \<lparr>nrows = length rows,
                 cols = map (\<lambda>k. (k, map (\<lambda>r. dict_get r k) rows)) (key_union rows)\<rparr>
               ''Ticker_ID'' tid))"
      and l8: "length cs = 8"
      and code: "''code'' \<in> set (key_union rows)"
      and esn: "''exchange_short_name'' \<in> set (key_union rows)"
      by blast
    from sa tid have C: ?C by blast
    from R code have num: "\<not> ?num"
      by (auto simp: daily_reshape_Records split: if_splits)
    with nm [OF C] have D: ?D by blast
    from len [of tid] l8 have E: ?E unfolding cs by simp
    from code esn C D E show ?thesis by blast
  qed
  show ?thesis
  proof (cases ?cond)
    case True
    from table [OF True] obtain df where "?R = Inr df" by blast
    then have r: "\<exists>df. retrieve_daily_price net exchange api_key = (Inr (Some df), [])"
      by (simp add: res)
    show ?thesis unfolding if_P [OF True] by (rule r)
  next
    case False
    with absent obtain e where "?R = Inl e" by (cases ?R) blast+
    then have r: "retrieve_daily_price net exchange api_key =
                (Inr None, [(ERROR, ''Failed to process daily prices for '' @ exchange)])"
      by (simp add: res)
    show ?thesis unfolding if_not_P [OF False] by (rule r)
  qed
qed

text \<open>The same on a one-row bulk response for \<open>AAPL\<close> on \<open>US\<close>.\<close>

theorem daily_table_iff_shape_witness:
  "daily_net (DAILY @ ''/'' @ ''US'' @ ''?api_token='' @ ''demo'' @ ''&fmt=json'')
     = Got 200 (Some (Records [daily_row])) \<and>
   \<not> (400 \<le> (200::nat) \<and> (200::nat) < 600) \<and> [daily_row] \<noteq> [] \<and>
   ''code'' \<in> set (key_union [daily_row]) \<and>
   ''exchange_short_name'' \<in> set (key_union [daily_row]) \<and>
   dict_get daily_row ''code'' = Str ''AAPL'' \<and>
   length (filter (\<lambda>k. k \<notin> {''code'', ''exchange_short_name'', ''Ticker_ID''})
             (key_union [daily_row])) = 7 \<and>
   (\<exists>df. retrieve_daily_price daily_net ''US'' ''demo'' = (Inr (Some df), []))"
proof -
  have net: "daily_net (DAILY @ ''/'' @ ''US'' @ ''?api_token='' @ ''demo'' @ ''&fmt=json'')
     = Got 200 (Some (Records [daily_row]))"
    by (simp add: daily_net_def)
  have ok: "\<not> (400 \<le> (200::nat) \<and> (200::nat) < 600)" by simp
  have ne: "[daily_row] \<noteq> []" by simp
  have k: "''code'' \<in> set (key_union [daily_row])"
    "''exchange_short_name'' \<in> set (key_union [daily_row])"
    "length (filter (\<lambda>k. k \<notin> {''code'', ''exchange_short_name'', ''Ticker_ID''})
             (key_union [daily_row])) = 7"
    by (simp_all add: key_union_def daily_row_def price_row_def)
  have d: "dict_get daily_row ''code'' = Str ''AAPL''"
    by (simp add: dict_get_def daily_row_def)
  then have c: "\<forall>r\<in>set [daily_row]. dict_get r ''code'' = NA \<or> (\<exists>c. dict_get r ''code'' = Str c)"
    by simp
  from d have e: "(\<exists>r\<in>set [daily_row]. \<exists>c. dict_get r ''code'' = Str c) \<or>
      (\<forall>r\<in>set [daily_row]. map_of r ''code'' \<noteq> None)"
    by simp
  from daily_table_iff_shape [of daily_net "''US''" "''demo''" 200 "[daily_row]",
      OF net ok ne] k c e
  have r: "\<exists>df. retrieve_daily_price daily_net ''US'' ''demo'' = (Inr (Some df), [])"
    by (simp only: if_True simp_thms)
  show ?thesis
    by (intro conjI) (rule net ok ne k d r)+
qed

text \<open>
  Nine fields with \<open>code\<close> and \<open>exchange_short_name\<close> among them are not enough:
  when the \<open>code\<close> is a JSON number, adding the suffix raises \<^verbatim>\<open>TypeError\<close> and
  the absent result is returned.
\<close>

theorem daily_table_iff_shape_counterexample:
  "length numeric_code_row = 9 \<and> distinct (map fst numeric_code_row) \<and>
   ''code'' \<in> set (map fst numeric_code_row) \<and>
   ''exchange_short_name'' \<in> set (map fst numeric_code_row) \<and>
   retrieve_daily_price numeric_code_net ''HK'' ''demo'' =
     (Inr None, [(ERROR, ''Failed to process daily prices for HK'')])"
  by (simp add: numeric_code_net_result) (simp add: numeric_code_row_def price_row_def)

end
